theory Spec2Isabelle
  imports Main
begin

section \<open>Python values, exceptions and the effects of the module\<close>

text \<open>
  The module \<^verbatim>\<open>emr_basics.py\<close> is dynamically typed: every argument is an arbitrary
  Python object. The values the six functions touch are modelled by one datatype. A
  dictionary is an association list in insertion order (keys are strings, looked up with
  \<open>map_of\<close>); \<open>PyObject\<close> is a plain object given by its data attributes, such as the
  security group and role resources whose \<^verbatim>\<open>.id\<close> and \<^verbatim>\<open>.name\<close> the module reads.
\<close>

datatype pyval =
    PyNone
  | PyBool bool
  | PyInt int
  | PyStr string
  | PyList "pyval list"
  | PyDict "(string \<times> pyval) list"
  | PyObject "(string \<times> pyval) list"

text \<open>
  Exceptions are values. \<open>ClientError\<close> stands for \<^verbatim>\<open>botocore.exceptions.ClientError\<close>
  and its subclasses, with its error response and operation name; \<open>OtherException\<close> is
  any exception a client may raise that is not a \<^verbatim>\<open>ClientError\<close> (a parameter
  validation error, a connection error), with its description.
\<close>

datatype exn =
    ClientError pyval string
  | KeyError pyval
  | IndexError
  | TypeError
  | AttributeError string
  | OtherException string

type_synonym kwargs = "(string \<times> pyval) list"

fun is_ClientError :: "exn \<Rightarrow> bool" where
  "is_ClientError (ClientError response operation_name) = True"
| "is_ClientError (KeyError k) = False"
| "is_ClientError IndexError = False"
| "is_ClientError TypeError = False"
| "is_ClientError (AttributeError a) = False"
| "is_ClientError (OtherException d) = False"

definition bind_exn :: "exn + 'a \<Rightarrow> ('a \<Rightarrow> exn + 'b) \<Rightarrow> exn + 'b" where
  "bind_exn m f = (case m of Inl e \<Rightarrow> Inl e | Inr x \<Rightarrow> f x)"

text \<open>\<^verbatim>\<open>xs[i]\<close> on a sequence: a negative index counts from the end, out of range raises.\<close>

definition list_index :: "'a list \<Rightarrow> int \<Rightarrow> exn + 'a" where
  "list_index xs i =
     (if - int (length xs) \<le> i \<and> i < 0 then Inr (xs ! nat (i + int (length xs)))
      else if 0 \<le> i \<and> i < int (length xs) then Inr (xs ! nat i)
      else Inl IndexError)"

text \<open>
  \<^verbatim>\<open>obj[key]\<close>. A dictionary raises \<^verbatim>\<open>KeyError\<close> on a key it does not hold and
  \<^verbatim>\<open>TypeError\<close> on an unhashable key; a list and a string take an integer (a bool is
  an integer); nothing else is subscriptable.
\<close>

fun subscript :: "pyval \<Rightarrow> pyval \<Rightarrow> exn + pyval" where
  "subscript (PyDict kvs) (PyStr k) =
     (case map_of kvs k of None \<Rightarrow> Inl (KeyError (PyStr k)) | Some v \<Rightarrow> Inr v)"
| "subscript (PyDict kvs) (PyList ks) = Inl TypeError"
| "subscript (PyDict kvs) (PyDict ks) = Inl TypeError"
| "subscript (PyDict kvs) k = Inl (KeyError k)"
| "subscript (PyList xs) (PyInt i) = list_index xs i"
| "subscript (PyList xs) (PyBool b) = list_index xs (if b then 1 else 0)"
| "subscript (PyStr s) (PyInt i) = map_sum id (\<lambda>c. PyStr [c]) (list_index s i)"
| "subscript (PyStr s) (PyBool b) =
     map_sum id (\<lambda>c. PyStr [c]) (list_index s (if b then 1 else 0))"
| "subscript obj k = Inl TypeError"

text \<open>
  \<^verbatim>\<open>obj.attr\<close>, for the two attributes the module reads, \<^verbatim>\<open>id\<close> and \<^verbatim>\<open>name\<close>:
  none of the built-in values has either, so only an object can provide them.
\<close>

fun getattr :: "pyval \<Rightarrow> string \<Rightarrow> exn + pyval" where
  "getattr (PyObject attrs) a =
     (case map_of attrs a of None \<Rightarrow> Inl (AttributeError a) | Some v \<Rightarrow> Inr v)"
| "getattr obj a = Inl (AttributeError a)"

text \<open>
  The elements a \<^verbatim>\<open>for\<close> loop or a \<^verbatim>\<open>*\<close> unpacking draws from a value: a list's
  elements, a string's characters, a dictionary's keys; anything else is not iterable.
\<close>

fun py_iter :: "pyval \<Rightarrow> exn + pyval list" where
  "py_iter (PyList xs) = Inr xs"
| "py_iter (PyStr s) = Inr (map (\<lambda>c. PyStr [c]) s)"
| "py_iter (PyDict kvs) = Inr (map (\<lambda>kv. PyStr (fst kv)) kvs)"
| "py_iter obj = Inl TypeError"

fun py_len :: "pyval \<Rightarrow> exn + int" where
  "py_len (PyList xs) = Inr (int (length xs))"
| "py_len (PyStr s) = Inr (int (length s))"
| "py_len (PyDict kvs) = Inr (int (length kvs))"
| "py_len obj = Inl TypeError"

text \<open>A list comprehension: the elements in order, stopping at the first exception.\<close>

fun comprehension :: "('a \<Rightarrow> exn + 'b) \<Rightarrow> 'a list \<Rightarrow> exn + 'b list" where
  "comprehension f [] = Inr []"
| "comprehension f (x # xs) =
     (case f x of
        Inl e \<Rightarrow> Inl e
      | Inr y \<Rightarrow> (case comprehension f xs of Inl e \<Rightarrow> Inl e | Inr ys \<Rightarrow> Inr (y # ys)))"

subsection \<open>The logger and the remote client\<close>

text \<open>
  The module's only state is its logger. A call of \<^verbatim>\<open>logger.info\<close> or
  \<^verbatim>\<open>logger.exception\<close> emits one record (message, arguments, and for
  \<^verbatim>\<open>exception\<close> the exception being handled, at level ERROR); neither call raises.
  The requests sent to the remote service are kept beside the records, so that what a
  function sent can be stated.
\<close>

record log_record =
  levelname :: string
  msg :: string
  args :: "pyval list"
  exc_info :: "exn option"

record world =
  records :: "log_record list"
  requests :: "(string \<times> kwargs) list"

definition logger_info :: "string \<Rightarrow> pyval list \<Rightarrow> world \<Rightarrow> world" where
  "logger_info m as w =
     w\<lparr>records := records w @ [\<lparr>levelname = ''INFO'', msg = m, args = as, exc_info = None\<rparr>]\<rparr>"

definition logger_exception :: "string \<Rightarrow> pyval list \<Rightarrow> exn \<Rightarrow> world \<Rightarrow> world" where
  "logger_exception m as e w =
     w\<lparr>records := records w @ [\<lparr>levelname = ''ERROR'', msg = m, args = as, exc_info = Some e\<rparr>]\<rparr>"

text \<open>
  The Boto3 EMR client passed to every function: the six methods the module calls, each
  from the keyword arguments to a response or an exception.
\<close>

record emr_client =
  client_run_job_flow :: "kwargs \<Rightarrow> exn + pyval"
  client_describe_cluster :: "kwargs \<Rightarrow> exn + pyval"
  client_terminate_job_flows :: "kwargs \<Rightarrow> exn + pyval"
  client_add_job_flow_steps :: "kwargs \<Rightarrow> exn + pyval"
  client_list_steps :: "kwargs \<Rightarrow> exn + pyval"
  client_describe_step :: "kwargs \<Rightarrow> exn + pyval"

definition remote ::
  "string \<Rightarrow> (kwargs \<Rightarrow> exn + pyval) \<Rightarrow> kwargs \<Rightarrow> world \<Rightarrow> (exn + pyval) \<times> world" where
  "remote method call kw w = (call kw, w\<lparr>requests := requests w @ [(method, kw)]\<rparr>)"

text \<open>
  The handler every function has:
  \<^verbatim>\<open>except ClientError: logger.exception(msg, *args); raise\<close>.
  It is given the outcome of the \<^verbatim>\<open>try\<close> body; an exception that is not a
  \<^verbatim>\<open>ClientError\<close> passes through it.
\<close>

definition except_ClientError ::
  "string \<Rightarrow> pyval list \<Rightarrow> (exn + 'a) \<times> world \<Rightarrow> (exn + 'a) \<times> world" where
  "except_ClientError m as outcome =
     (case outcome of
        (Inl e, w) \<Rightarrow> if is_ClientError e then (Inl e, logger_exception m as e w) else (Inl e, w)
      | (Inr v, w) \<Rightarrow> (Inr v, w))"

section \<open>The six functions\<close>

subsection \<open>run_job_flow\<close>

text \<open>One element of the \<^verbatim>\<open>Steps\<close> comprehension (lines 65 to 78).\<close>

definition step_entry :: "pyval \<Rightarrow> exn + pyval" where
  "step_entry step =
     bind_exn (subscript step (PyStr ''name'')) (\<lambda>step_name.
     bind_exn (subscript step (PyStr ''script_uri'')) (\<lambda>script_uri.
     bind_exn (subscript step (PyStr ''script_args'')) (\<lambda>script_args.
     bind_exn (py_iter script_args) (\<lambda>unpacked.
       Inr (PyDict
         [(''Name'', step_name),
          (''ActionOnFailure'', PyStr ''CONTINUE''),
          (''HadoopJarStep'', PyDict
             [(''Jar'', PyStr ''command-runner.jar''),
              (''Args'', PyList
                 ([PyStr ''spark-submit'', PyStr ''--deploy-mode'', PyStr ''cluster'',
                   script_uri] @ unpacked))])])))))"

text \<open>
  The keyword arguments of \<^verbatim>\<open>emr_client.run_job_flow(...)\<close> (lines 52 to 86),
  evaluated in the order they are written; the first exception ends the evaluation.
\<close>

definition run_job_flow_kwargs ::
  "pyval \<Rightarrow> pyval \<Rightarrow> pyval \<Rightarrow> pyval \<Rightarrow> pyval \<Rightarrow> pyval \<Rightarrow> pyval \<Rightarrow> pyval \<Rightarrow> exn + kwargs" where
  "run_job_flow_kwargs name log_uri keep_alive applications job_flow_role service_role
       security_groups steps =
     bind_exn (subscript security_groups (PyStr ''manager'')) (\<lambda>manager.
     bind_exn (getattr manager ''id'') (\<lambda>manager_id.
     bind_exn (subscript security_groups (PyStr ''worker'')) (\<lambda>worker.
     bind_exn (getattr worker ''id'') (\<lambda>worker_id.
     bind_exn (py_iter steps) (\<lambda>step_list.
     bind_exn (comprehension step_entry step_list) (\<lambda>step_entries.
     bind_exn (py_iter applications) (\<lambda>apps.
     bind_exn (getattr job_flow_role ''name'') (\<lambda>job_flow_role_name.
     bind_exn (getattr service_role ''name'') (\<lambda>service_role_name.
       Inr [(''Name'', name),
            (''LogUri'', log_uri),
            (''ReleaseLabel'', PyStr ''emr-5.30.1''),
            (''Instances'', PyDict
               [(''MasterInstanceType'', PyStr ''m5.xlarge''),
                (''SlaveInstanceType'', PyStr ''m5.xlarge''),
                (''InstanceCount'', PyInt 3),
                (''KeepJobFlowAliveWhenNoSteps'', keep_alive),
                (''EmrManagedMasterSecurityGroup'', manager_id),
                (''EmrManagedSlaveSecurityGroup'', worker_id)]),
            (''Steps'', PyList step_entries),
            (''Applications'', PyList (map (\<lambda>app. PyDict [(''Name'', app)]) apps)),
            (''JobFlowRole'', job_flow_role_name),
            (''ServiceRole'', service_role_name),
            (''EbsRootVolumeSize'', PyInt 10),
            (''VisibleToAllUsers'', PyBool True)])))))))))"

definition run_job_flow ::
  "pyval \<Rightarrow> pyval \<Rightarrow> pyval \<Rightarrow> pyval \<Rightarrow> pyval \<Rightarrow> pyval \<Rightarrow> pyval \<Rightarrow> pyval \<Rightarrow> emr_client \<Rightarrow>
     world \<Rightarrow> (exn + pyval) \<times> world" where
  "run_job_flow name log_uri keep_alive applications job_flow_role service_role
       security_groups steps emr_client w =
     except_ClientError ''Couldn't create cluster.'' []
       (case run_job_flow_kwargs name log_uri keep_alive applications job_flow_role
               service_role security_groups steps of
          Inl e \<Rightarrow> (Inl e, w)
        | Inr kw \<Rightarrow>
            (case remote ''run_job_flow'' (client_run_job_flow emr_client) kw w of
               (Inl e, w1) \<Rightarrow> (Inl e, w1)
             | (Inr response, w1) \<Rightarrow>
                 (case subscript response (PyStr ''JobFlowId'') of
                    Inl e \<Rightarrow> (Inl e, w1)
                  | Inr cluster_id \<Rightarrow>
                      (Inr cluster_id, logger_info ''Created cluster %s.'' [cluster_id] w1))))"

subsection \<open>describe_cluster\<close>

definition describe_cluster ::
  "pyval \<Rightarrow> emr_client \<Rightarrow> world \<Rightarrow> (exn + pyval) \<times> world" where
  "describe_cluster cluster_id emr_client w =
     except_ClientError ''Couldn't get data for cluster %s.'' [cluster_id]
       (case remote ''describe_cluster'' (client_describe_cluster emr_client)
               [(''ClusterId'', cluster_id)] w of
          (Inl e, w1) \<Rightarrow> (Inl e, w1)
        | (Inr response, w1) \<Rightarrow>
            (case subscript response (PyStr ''Cluster'') of
               Inl e \<Rightarrow> (Inl e, w1)
             | Inr cluster \<Rightarrow>
                 (case subscript cluster (PyStr ''Name'') of
                    Inl e \<Rightarrow> (Inl e, w1)
                  | Inr cluster_name \<Rightarrow>
                      (Inr cluster,
                       logger_info ''Got data for cluster %s.'' [cluster_name] w1))))"

subsection \<open>terminate_cluster\<close>

text \<open>The function has no \<^verbatim>\<open>return\<close>: its value is \<^verbatim>\<open>None\<close>.\<close>

definition terminate_cluster ::
  "pyval \<Rightarrow> emr_client \<Rightarrow> world \<Rightarrow> (exn + pyval) \<times> world" where
  "terminate_cluster cluster_id emr_client w =
     except_ClientError ''Couldn't terminate cluster %s.'' [cluster_id]
       (case remote ''terminate_job_flows'' (client_terminate_job_flows emr_client)
               [(''JobFlowIds'', PyList [cluster_id])] w of
          (Inl e, w1) \<Rightarrow> (Inl e, w1)
        | (Inr response, w1) \<Rightarrow>
            (Inr PyNone, logger_info ''Terminated cluster %s.'' [cluster_id] w1))"

subsection \<open>add_step\<close>

text \<open>The keyword arguments of \<^verbatim>\<open>emr_client.add_job_flow_steps(...)\<close> (lines 151 to 169).\<close>

definition add_step_kwargs :: "pyval \<Rightarrow> pyval \<Rightarrow> pyval \<Rightarrow> pyval \<Rightarrow> exn + kwargs" where
  "add_step_kwargs cluster_id name script_uri script_args =
     bind_exn (py_iter script_args) (\<lambda>unpacked.
       Inr [(''JobFlowId'', cluster_id),
            (''Steps'', PyList
               [PyDict
                  [(''Name'', name),
                   (''ActionOnFailure'', PyStr ''CONTINUE''),
                   (''HadoopJarStep'', PyDict
                      [(''Jar'', PyStr ''command-runner.jar''),
                       (''Args'', PyList
                          ([PyStr ''spark-submit'', PyStr ''--deploy-mode'', PyStr ''cluster'',
                            script_uri] @ unpacked))])]])])"

definition add_step ::
  "pyval \<Rightarrow> pyval \<Rightarrow> pyval \<Rightarrow> pyval \<Rightarrow> emr_client \<Rightarrow> world \<Rightarrow> (exn + pyval) \<times> world" where
  "add_step cluster_id name script_uri script_args emr_client w =
     except_ClientError ''Couldn't start step %s with URI %s.'' [name, script_uri]
       (case add_step_kwargs cluster_id name script_uri script_args of
          Inl e \<Rightarrow> (Inl e, w)
        | Inr kw \<Rightarrow>
            (case remote ''add_job_flow_steps'' (client_add_job_flow_steps emr_client) kw w of
               (Inl e, w1) \<Rightarrow> (Inl e, w1)
             | (Inr response, w1) \<Rightarrow>
                 (case subscript response (PyStr ''StepIds'') of
                    Inl e \<Rightarrow> (Inl e, w1)
                  | Inr step_ids \<Rightarrow>
                      (case subscript step_ids (PyInt 0) of
                         Inl e \<Rightarrow> (Inl e, w1)
                       | Inr step_id \<Rightarrow>
                           (Inr step_id,
                            logger_info ''Started step with ID %s'' [step_id] w1)))))"

subsection \<open>list_steps\<close>

definition list_steps ::
  "pyval \<Rightarrow> emr_client \<Rightarrow> world \<Rightarrow> (exn + pyval) \<times> world" where
  "list_steps cluster_id emr_client w =
     except_ClientError ''Couldn't get steps for cluster %s.'' [cluster_id]
       (case remote ''list_steps'' (client_list_steps emr_client)
               [(''ClusterId'', cluster_id)] w of
          (Inl e, w1) \<Rightarrow> (Inl e, w1)
        | (Inr response, w1) \<Rightarrow>
            (case subscript response (PyStr ''Steps'') of
               Inl e \<Rightarrow> (Inl e, w1)
             | Inr steps \<Rightarrow>
                 (case py_len steps of
                    Inl e \<Rightarrow> (Inl e, w1)
                  | Inr n \<Rightarrow>
                      (Inr steps,
                       logger_info ''Got %s steps for cluster %s.'' [PyInt n, cluster_id] w1))))"

subsection \<open>describe_step\<close>

definition describe_step ::
  "pyval \<Rightarrow> pyval \<Rightarrow> emr_client \<Rightarrow> world \<Rightarrow> (exn + pyval) \<times> world" where
  "describe_step cluster_id step_id emr_client w =
     except_ClientError ''Couldn't get data for step %s.'' [step_id]
       (case remote ''describe_step'' (client_describe_step emr_client)
               [(''ClusterId'', cluster_id), (''StepId'', step_id)] w of
          (Inl e, w1) \<Rightarrow> (Inl e, w1)
        | (Inr response, w1) \<Rightarrow>
            (case subscript response (PyStr ''Step'') of
               Inl e \<Rightarrow> (Inl e, w1)
             | Inr step \<Rightarrow> (Inr step, logger_info ''Got data for step %s.'' [step_id] w1)))"

section \<open>Example inputs and clients\<close>

text \<open>
  Concrete arguments and clients on which the theorems below are instantiated: a world
  with nothing logged or sent, well-formed arguments of \<open>run_job_flow\<close>, a client that
  answers every call, one whose every call is refused by the service with a
  \<^verbatim>\<open>ClientError\<close>, one that cannot reach the service (an exception that is not a
  \<^verbatim>\<open>ClientError\<close>), one whose responses are empty, one whose cluster record has
  no name, and one whose responses hold the documented field with a value that cannot be
  used (a cluster record without a name, no step identifier, steps that are not a list).
\<close>

definition initial_world :: world where
  "initial_world = \<lparr>records = [], requests = []\<rparr>"

definition example_security_groups :: pyval where
  "example_security_groups =
     PyDict [(''manager'', PyObject [(''id'', PyStr ''sg-1'')]),
             (''worker'', PyObject [(''id'', PyStr ''sg-2'')])]"

definition example_job_flow_role :: pyval where
  "example_job_flow_role = PyObject [(''name'', PyStr ''job-flow-role'')]"

definition example_service_role :: pyval where
  "example_service_role = PyObject [(''name'', PyStr ''service-role'')]"

definition example_steps :: "pyval list" where
  "example_steps =
     [PyDict [(''name'', PyStr ''X''), (''script_uri'', PyStr ''s3://b/s.py''),
              (''script_args'', PyList [PyStr ''--a'', PyStr ''1''])],
      PyDict [(''name'', PyStr ''Y''), (''script_uri'', PyStr ''s3://b/t.py''),
              (''script_args'', PyList [])]]"

definition example_run_job_flow_kwargs :: kwargs where
  "example_run_job_flow_kwargs =
     [(''Name'', PyStr ''demo''),
      (''LogUri'', PyStr ''s3://logs''),
      (''ReleaseLabel'', PyStr ''emr-5.30.1''),
      (''Instances'', PyDict
         [(''MasterInstanceType'', PyStr ''m5.xlarge''),
          (''SlaveInstanceType'', PyStr ''m5.xlarge''),
          (''InstanceCount'', PyInt 3),
          (''KeepJobFlowAliveWhenNoSteps'', PyBool False),
          (''EmrManagedMasterSecurityGroup'', PyStr ''sg-1''),
          (''EmrManagedSlaveSecurityGroup'', PyStr ''sg-2'')]),
      (''Steps'', PyList
         [PyDict
            [(''Name'', PyStr ''X''),
             (''ActionOnFailure'', PyStr ''CONTINUE''),
             (''HadoopJarStep'', PyDict
                [(''Jar'', PyStr ''command-runner.jar''),
                 (''Args'', PyList
                    [PyStr ''spark-submit'', PyStr ''--deploy-mode'', PyStr ''cluster'',
                     PyStr ''s3://b/s.py'', PyStr ''--a'', PyStr ''1''])])],
          PyDict
            [(''Name'', PyStr ''Y''),
             (''ActionOnFailure'', PyStr ''CONTINUE''),
             (''HadoopJarStep'', PyDict
                [(''Jar'', PyStr ''command-runner.jar''),
                 (''Args'', PyList
                    [PyStr ''spark-submit'', PyStr ''--deploy-mode'', PyStr ''cluster'',
                     PyStr ''s3://b/t.py''])])]]),
      (''Applications'', PyList [PyDict [(''Name'', PyStr ''Spark'')]]),
      (''JobFlowRole'', PyStr ''job-flow-role''),
      (''ServiceRole'', PyStr ''service-role''),
      (''EbsRootVolumeSize'', PyInt 10),
      (''VisibleToAllUsers'', PyBool True)]"

definition answering_client :: emr_client where
  "answering_client =
     \<lparr>client_run_job_flow = (\<lambda>kw. Inr (PyDict [(''JobFlowId'', PyStr ''j-ABC'')])),
      client_describe_cluster = (\<lambda>kw. Inr (PyDict
         [(''Cluster'', PyDict [(''Id'', PyStr ''j-ABC''), (''Name'', PyStr ''demo'')])])),
      client_terminate_job_flows = (\<lambda>kw. Inr (PyDict [])),
      client_add_job_flow_steps = (\<lambda>kw. Inr (PyDict [(''StepIds'', PyList [PyStr ''s-1''])])),
      client_list_steps = (\<lambda>kw. Inr (PyDict [(''Steps'', PyList [])])),
      client_describe_step = (\<lambda>kw. Inr (PyDict
         [(''Step'', PyDict [(''Id'', PyStr ''s-1'')])]))\<rparr>"

definition access_denied :: exn where
  "access_denied =
     ClientError (PyDict [(''Error'', PyDict [(''Code'', PyStr ''AccessDeniedException'')])])
       ''EMR''"

definition refused_client :: emr_client where
  "refused_client =
     \<lparr>client_run_job_flow = (\<lambda>kw. Inl access_denied),
      client_describe_cluster = (\<lambda>kw. Inl access_denied),
      client_terminate_job_flows = (\<lambda>kw. Inl access_denied),
      client_add_job_flow_steps = (\<lambda>kw. Inl access_denied),
      client_list_steps = (\<lambda>kw. Inl access_denied),
      client_describe_step = (\<lambda>kw. Inl access_denied)\<rparr>"

definition unreachable_client :: emr_client where
  "unreachable_client =
     \<lparr>client_run_job_flow = (\<lambda>kw. Inl (OtherException ''EndpointConnectionError'')),
      client_describe_cluster = (\<lambda>kw. Inl (OtherException ''EndpointConnectionError'')),
      client_terminate_job_flows = (\<lambda>kw. Inl (OtherException ''EndpointConnectionError'')),
      client_add_job_flow_steps = (\<lambda>kw. Inl (OtherException ''EndpointConnectionError'')),
      client_list_steps = (\<lambda>kw. Inl (OtherException ''EndpointConnectionError'')),
      client_describe_step = (\<lambda>kw. Inl (OtherException ''EndpointConnectionError''))\<rparr>"

definition empty_response_client :: emr_client where
  "empty_response_client =
     \<lparr>client_run_job_flow = (\<lambda>kw. Inr (PyDict [])),
      client_describe_cluster = (\<lambda>kw. Inr (PyDict [])),
      client_terminate_job_flows = (\<lambda>kw. Inr (PyDict [])),
      client_add_job_flow_steps = (\<lambda>kw. Inr (PyDict [])),
      client_list_steps = (\<lambda>kw. Inr (PyDict [])),
      client_describe_step = (\<lambda>kw. Inr (PyDict []))\<rparr>"

definition nameless_cluster_client :: emr_client where
  "nameless_cluster_client =
     answering_client\<lparr>client_describe_cluster :=
       (\<lambda>kw. Inr (PyDict [(''Cluster'', PyDict [(''Id'', PyStr ''j-ABC'')])]))\<rparr>"

definition malformed_response_client :: emr_client where
  "malformed_response_client =
     \<lparr>client_run_job_flow = (\<lambda>kw. Inr (PyDict [])),
      client_describe_cluster = (\<lambda>kw. Inr (PyDict [(''Cluster'', PyDict [])])),
      client_terminate_job_flows = (\<lambda>kw. Inr (PyDict [])),
      client_add_job_flow_steps = (\<lambda>kw. Inr (PyDict [(''StepIds'', PyList [])])),
      client_list_steps = (\<lambda>kw. Inr (PyDict [(''Steps'', PyNone)])),
      client_describe_step = (\<lambda>kw. Inr (PyDict []))\<rparr>"

definition later_world :: world where
  "later_world =
     \<lparr>records = [\<lparr>levelname = ''INFO'', msg = ''Terminated cluster %s.'',
                    args = [PyStr ''j-OLD''], exc_info = None\<rparr>],
      requests = [(''terminate_job_flows'', [(''JobFlowIds'', PyList [PyStr ''j-OLD''])])]\<rparr>"

definition workerless_security_groups :: pyval where
  "workerless_security_groups = PyDict [(''manager'', PyObject [(''id'', PyStr ''sg-1'')])]"

section \<open>The input shape run_job_flow relies on\<close>

text \<open>
  The precondition as the claim words it: \<open>security_groups\<close> is a mapping with keys
  \<open>manager\<close> and \<open>worker\<close> whose values have an \<open>id\<close> attribute, both roles have a
  \<open>name\<close> attribute, and every step is a mapping with keys \<open>name\<close>, \<open>script_uri\<close> and
  \<open>script_args\<close>.
\<close>

definition input_shape :: "pyval \<Rightarrow> pyval \<Rightarrow> pyval \<Rightarrow> pyval list \<Rightarrow> bool" where
  "input_shape job_flow_role service_role security_groups step_list \<longleftrightarrow>
     \<not> isl (bind_exn (subscript security_groups (PyStr ''manager'')) (\<lambda>g. getattr g ''id'')) \<and>
     \<not> isl (bind_exn (subscript security_groups (PyStr ''worker'')) (\<lambda>g. getattr g ''id'')) \<and>
     \<not> isl (getattr job_flow_role ''name'') \<and>
     \<not> isl (getattr service_role ''name'') \<and>
     list_all (\<lambda>step.
         \<not> isl (subscript step (PyStr ''name'')) \<and>
         \<not> isl (subscript step (PyStr ''script_uri'')) \<and>
         \<not> isl (subscript step (PyStr ''script_args''))) step_list"

section \<open>Basic facts\<close>

lemma bind_exn_Inl [simp]: "bind_exn (Inl e) f = Inl e"
  by (simp add: bind_exn_def)

lemma bind_exn_Inr [simp]: "bind_exn (Inr x) f = f x"
  by (simp add: bind_exn_def)

lemma bind_exn_eq_Inr: "bind_exn m f = Inr y \<longleftrightarrow> (\<exists>x. m = Inr x \<and> f x = Inr y)"
  by (cases m) simp_all

lemma bind_exn_eq_Inl:
  "bind_exn m f = Inl e \<longleftrightarrow> m = Inl e \<or> (\<exists>x. m = Inr x \<and> f x = Inl e)"
  by (cases m) simp_all

lemma comprehension_eq_Inr:
  "comprehension f xs = Inr ys \<longleftrightarrow> list_all2 (\<lambda>x y. f x = Inr y) xs ys"
proof (induction xs arbitrary: ys)
  case Nil
  show ?case by auto
next
  case (Cons x xs)
  show ?case
    by (cases ys; cases "f x"; cases "comprehension f xs")
       (auto simp: Cons.IH [symmetric])
qed

lemma comprehension_eq_Inl:
  "comprehension f xs = Inl e \<Longrightarrow> \<exists>x \<in> set xs. f x = Inl e"
  by (induction xs) (auto split: sum.splits)

lemma list_index_not_ClientError: "list_index xs i = Inl e \<Longrightarrow> e = IndexError"
  by (auto simp: list_index_def split: if_splits)

lemma subscript_not_ClientError: "subscript obj k = Inl e \<Longrightarrow> \<not> is_ClientError e"
  by (induction obj k rule: subscript.induct)
     (auto split: option.splits sum.splits dest!: list_index_not_ClientError simp: map_sum_def)

lemma getattr_not_ClientError: "getattr obj a = Inl e \<Longrightarrow> \<not> is_ClientError e"
  by (cases obj) (auto split: option.splits)

lemma py_iter_not_ClientError: "py_iter obj = Inl e \<Longrightarrow> \<not> is_ClientError e"
  by (cases obj) auto

lemma py_len_not_ClientError: "py_len obj = Inl e \<Longrightarrow> \<not> is_ClientError e"
  by (cases obj) auto

lemma step_entry_not_ClientError: "step_entry step = Inl e \<Longrightarrow> \<not> is_ClientError e"
  by (auto simp: step_entry_def bind_exn_eq_Inl
           dest: subscript_not_ClientError py_iter_not_ClientError)


lemma step_entry_eq_Inr:
  "step_entry step = Inr entry \<longleftrightarrow>
     (\<exists>step_name script_uri script_args unpacked.
        subscript step (PyStr ''name'') = Inr step_name \<and>
        subscript step (PyStr ''script_uri'') = Inr script_uri \<and>
        subscript step (PyStr ''script_args'') = Inr script_args \<and>
        py_iter script_args = Inr unpacked \<and>
        entry = PyDict
          [(''Name'', step_name),
           (''ActionOnFailure'', PyStr ''CONTINUE''),
           (''HadoopJarStep'', PyDict
              [(''Jar'', PyStr ''command-runner.jar''),
               (''Args'', PyList
                  ([PyStr ''spark-submit'', PyStr ''--deploy-mode'', PyStr ''cluster'',
                    script_uri] @ unpacked))])])"
  unfolding step_entry_def bind_exn_eq_Inr by auto

lemma run_job_flow_kwargs_eq_Inr:
  "run_job_flow_kwargs name log_uri keep_alive applications job_flow_role service_role
       security_groups steps = Inr kw \<longleftrightarrow>
     (\<exists>manager manager_id worker worker_id step_list step_entries apps
         job_flow_role_name service_role_name.
        subscript security_groups (PyStr ''manager'') = Inr manager \<and>
        getattr manager ''id'' = Inr manager_id \<and>
        subscript security_groups (PyStr ''worker'') = Inr worker \<and>
        getattr worker ''id'' = Inr worker_id \<and>
        py_iter steps = Inr step_list \<and>
        comprehension step_entry step_list = Inr step_entries \<and>
        py_iter applications = Inr apps \<and>
        getattr job_flow_role ''name'' = Inr job_flow_role_name \<and>
        getattr service_role ''name'' = Inr service_role_name \<and>
        kw = [(''Name'', name),
              (''LogUri'', log_uri),
              (''ReleaseLabel'', PyStr ''emr-5.30.1''),
              (''Instances'', PyDict
                 [(''MasterInstanceType'', PyStr ''m5.xlarge''),
                  (''SlaveInstanceType'', PyStr ''m5.xlarge''),
                  (''InstanceCount'', PyInt 3),
                  (''KeepJobFlowAliveWhenNoSteps'', keep_alive),
                  (''EmrManagedMasterSecurityGroup'', manager_id),
                  (''EmrManagedSlaveSecurityGroup'', worker_id)]),
              (''Steps'', PyList step_entries),
              (''Applications'', PyList (map (\<lambda>app. PyDict [(''Name'', app)]) apps)),
              (''JobFlowRole'', job_flow_role_name),
              (''ServiceRole'', service_role_name),
              (''EbsRootVolumeSize'', PyInt 10),
              (''VisibleToAllUsers'', PyBool True)])"
  unfolding run_job_flow_kwargs_def bind_exn_eq_Inr by auto

lemma run_job_flow_kwargs_not_ClientError:
  "run_job_flow_kwargs name log_uri keep_alive applications job_flow_role service_role
       security_groups steps = Inl e \<Longrightarrow> \<not> is_ClientError e"
  unfolding run_job_flow_kwargs_def bind_exn_eq_Inl
  by (auto dest: subscript_not_ClientError getattr_not_ClientError py_iter_not_ClientError
                 step_entry_not_ClientError dest!: comprehension_eq_Inl)

lemma run_job_flow_requests:
  assumes "run_job_flow_kwargs name log_uri keep_alive applications job_flow_role
             service_role security_groups steps = Inr kw"
  shows "requests (snd (run_job_flow name log_uri keep_alive applications job_flow_role
             service_role security_groups steps emr_client w)) =
           requests w @ [(''run_job_flow'', kw)]"
  using assms
  by (simp add: run_job_flow_def remote_def except_ClientError_def logger_info_def
        logger_exception_def split: sum.splits)

lemma example_run_job_flow_kwargs:
  "run_job_flow_kwargs (PyStr ''demo'') (PyStr ''s3://logs'') (PyBool False)
     (PyList [PyStr ''Spark'']) example_job_flow_role example_service_role
     example_security_groups (PyList example_steps) = Inr example_run_job_flow_kwargs"
  by (simp add: run_job_flow_kwargs_def step_entry_def example_job_flow_role_def
        example_service_role_def example_security_groups_def example_steps_def
        example_run_job_flow_kwargs_def)

lemma add_step_kwargs_eq_Inr:
  "py_iter script_args = Inr unpacked \<Longrightarrow>
   add_step_kwargs cluster_id name script_uri script_args =
     Inr [(''JobFlowId'', cluster_id),
          (''Steps'', PyList
             [PyDict
                [(''Name'', name),
                 (''ActionOnFailure'', PyStr ''CONTINUE''),
                 (''HadoopJarStep'', PyDict
                    [(''Jar'', PyStr ''command-runner.jar''),
                     (''Args'', PyList
                        ([PyStr ''spark-submit'', PyStr ''--deploy-mode'', PyStr ''cluster'',
                          script_uri] @ unpacked))])]])]"
  by (simp add: add_step_kwargs_def)

lemma add_step_requests:
  assumes "add_step_kwargs cluster_id name script_uri script_args = Inr kw"
  shows "requests (snd (add_step cluster_id name script_uri script_args emr_client w)) =
           requests w @ [(''add_job_flow_steps'', kw)]"
  using assms
  by (simp add: add_step_def remote_def except_ClientError_def logger_info_def
        logger_exception_def split: sum.splits)

section \<open>The request of run_job_flow\<close>

text \<open>
  Claim C1. When \<open>run_job_flow\<close> is given a list of \<open>N\<close> steps and builds its request,
  the \<open>Steps\<close> field of that request is a list of exactly \<open>N\<close> entries, in the order of
  the input: entry \<open>i\<close> has \<open>Name\<close> the \<open>i\<close>-th step's \<open>name\<close>, \<open>ActionOnFailure\<close>
  \<open>CONTINUE\<close>, \<open>HadoopJarStep.Jar\<close> \<open>command-runner.jar\<close> and \<open>HadoopJarStep.Args\<close> the
  three tokens \<open>spark-submit\<close>, \<open>--deploy-mode\<close>, \<open>cluster\<close>, then that step's
  \<open>script_uri\<close>, then the elements of its \<open>script_args\<close> in order (for a list, the list
  itself). The request built is the one sent to the client.
\<close>

theorem run_job_flow_steps_entries:
  assumes "run_job_flow_kwargs name log_uri keep_alive applications job_flow_role
             service_role security_groups (PyList steps) = Inr kw"
  shows "requests (snd (run_job_flow name log_uri keep_alive applications job_flow_role
             service_role security_groups (PyList steps) emr_client w)) =
           requests w @ [(''run_job_flow'', kw)] \<and>
         (\<exists>entries.
           map_of kw ''Steps'' = Some (PyList entries) \<and>
           length entries = length steps \<and>
           (\<forall>i < length steps.
              \<exists>step_name script_uri script_args unpacked.
                subscript (steps ! i) (PyStr ''name'') = Inr step_name \<and>
                subscript (steps ! i) (PyStr ''script_uri'') = Inr script_uri \<and>
                subscript (steps ! i) (PyStr ''script_args'') = Inr script_args \<and>
                py_iter script_args = Inr unpacked \<and>
                (\<forall>xs. script_args = PyList xs \<longrightarrow> unpacked = xs) \<and>
                entries ! i = PyDict
                  [(''Name'', step_name),
                   (''ActionOnFailure'', PyStr ''CONTINUE''),
                   (''HadoopJarStep'', PyDict
                      [(''Jar'', PyStr ''command-runner.jar''),
                       (''Args'', PyList
                          ([PyStr ''spark-submit'', PyStr ''--deploy-mode'',
                            PyStr ''cluster'', script_uri] @ unpacked))])]))"
proof -
  from assms obtain entries where
    c: "comprehension step_entry steps = Inr entries" and
    kw: "map_of kw ''Steps'' = Some (PyList entries)"
    unfolding run_job_flow_kwargs_eq_Inr by auto
  from c have l2: "list_all2 (\<lambda>x y. step_entry x = Inr y) steps entries"
    by (simp add: comprehension_eq_Inr)
  then have len: "length entries = length steps"
    by (simp add: list_all2_lengthD)
  have "\<exists>step_name script_uri script_args unpacked.
          subscript (steps ! i) (PyStr ''name'') = Inr step_name \<and>
          subscript (steps ! i) (PyStr ''script_uri'') = Inr script_uri \<and>
          subscript (steps ! i) (PyStr ''script_args'') = Inr script_args \<and>
          py_iter script_args = Inr unpacked \<and>
          (\<forall>xs. script_args = PyList xs \<longrightarrow> unpacked = xs) \<and>
          entries ! i = PyDict
            [(''Name'', step_name),
             (''ActionOnFailure'', PyStr ''CONTINUE''),
             (''HadoopJarStep'', PyDict
                [(''Jar'', PyStr ''command-runner.jar''),
                 (''Args'', PyList
                    ([PyStr ''spark-submit'', PyStr ''--deploy-mode'',
                      PyStr ''cluster'', script_uri] @ unpacked))])]"
    if "i < length steps" for i
  proof -
    from l2 that have "step_entry (steps ! i) = Inr (entries ! i)"
      by (rule list_all2_nthD)
    then show ?thesis
      unfolding step_entry_eq_Inr by fastforce
  qed
  with kw len run_job_flow_requests [OF assms] show ?thesis by blast
qed

theorem run_job_flow_steps_entries_witness:
  "requests (snd (run_job_flow (PyStr ''demo'') (PyStr ''s3://logs'') (PyBool False)
       (PyList [PyStr ''Spark'']) example_job_flow_role example_service_role
       example_security_groups (PyList example_steps) answering_client initial_world)) =
     [(''run_job_flow'', example_run_job_flow_kwargs)] \<and>
   (\<exists>entries.
     map_of example_run_job_flow_kwargs ''Steps'' = Some (PyList entries) \<and>
     length entries = 2 \<and>
     entries ! 0 = PyDict
       [(''Name'', PyStr ''X''),
        (''ActionOnFailure'', PyStr ''CONTINUE''),
        (''HadoopJarStep'', PyDict
           [(''Jar'', PyStr ''command-runner.jar''),
            (''Args'', PyList
               [PyStr ''spark-submit'', PyStr ''--deploy-mode'', PyStr ''cluster'',
                PyStr ''s3://b/s.py'', PyStr ''--a'', PyStr ''1''])])] \<and>
     entries ! 1 = PyDict
       [(''Name'', PyStr ''Y''),
        (''ActionOnFailure'', PyStr ''CONTINUE''),
        (''HadoopJarStep'', PyDict
           [(''Jar'', PyStr ''command-runner.jar''),
            (''Args'', PyList
               [PyStr ''spark-submit'', PyStr ''--deploy-mode'', PyStr ''cluster'',
                PyStr ''s3://b/t.py''])])])"
proof -
  from run_job_flow_steps_entries [OF example_run_job_flow_kwargs,
      of answering_client initial_world]
  obtain entries where
    r: "requests (snd (run_job_flow (PyStr ''demo'') (PyStr ''s3://logs'') (PyBool False)
         (PyList [PyStr ''Spark'']) example_job_flow_role example_service_role
         example_security_groups (PyList example_steps) answering_client initial_world)) =
       requests initial_world @ [(''run_job_flow'', example_run_job_flow_kwargs)]" and
    s: "map_of example_run_job_flow_kwargs ''Steps'' = Some (PyList entries)" and
    l: "length entries = length example_steps" and
    e: "\<And>i. i < length example_steps \<Longrightarrow>
         \<exists>step_name script_uri script_args unpacked.
           subscript (example_steps ! i) (PyStr ''name'') = Inr step_name \<and>
           subscript (example_steps ! i) (PyStr ''script_uri'') = Inr script_uri \<and>
           subscript (example_steps ! i) (PyStr ''script_args'') = Inr script_args \<and>
           py_iter script_args = Inr unpacked \<and>
           (\<forall>xs. script_args = PyList xs \<longrightarrow> unpacked = xs) \<and>
           entries ! i = PyDict
             [(''Name'', step_name),
              (''ActionOnFailure'', PyStr ''CONTINUE''),
              (''HadoopJarStep'', PyDict
                 [(''Jar'', PyStr ''command-runner.jar''),
                  (''Args'', PyList
                     ([PyStr ''spark-submit'', PyStr ''--deploy-mode'',
                       PyStr ''cluster'', script_uri] @ unpacked))])]"
    by blast
  have n: "length example_steps = 2"
    by (simp add: example_steps_def)
  have e0: "entries ! 0 = PyDict
       [(''Name'', PyStr ''X''),
        (''ActionOnFailure'', PyStr ''CONTINUE''),
        (''HadoopJarStep'', PyDict
           [(''Jar'', PyStr ''command-runner.jar''),
            (''Args'', PyList
               [PyStr ''spark-submit'', PyStr ''--deploy-mode'', PyStr ''cluster'',
                PyStr ''s3://b/s.py'', PyStr ''--a'', PyStr ''1''])])]"
    using e [of 0] n by (auto simp: example_steps_def)
  have e1: "entries ! 1 = PyDict
       [(''Name'', PyStr ''Y''),
        (''ActionOnFailure'', PyStr ''CONTINUE''),
        (''HadoopJarStep'', PyDict
           [(''Jar'', PyStr ''command-runner.jar''),
            (''Args'', PyList
               [PyStr ''spark-submit'', PyStr ''--deploy-mode'', PyStr ''cluster'',
                PyStr ''s3://b/t.py''])])]"
    using e [of 1] n by (auto simp: example_steps_def)
  from r s l n e0 e1 show ?thesis
    by (simp add: initial_world_def)
qed

text \<open>
  Claim C3. Whatever the arguments, the request \<open>run_job_flow\<close> builds and sends has
  \<open>InstanceCount\<close> 3, \<open>MasterInstanceType\<close> and \<open>SlaveInstanceType\<close> both \<open>m5.xlarge\<close>,
  \<open>EbsRootVolumeSize\<close> 10, \<open>VisibleToAllUsers\<close> true and \<open>ReleaseLabel\<close> \<open>emr-5.30.1\<close>.
\<close>

theorem run_job_flow_fixed_fields:
  assumes "run_job_flow_kwargs name log_uri keep_alive applications job_flow_role
             service_role security_groups steps = Inr kw"
  shows "requests (snd (run_job_flow name log_uri keep_alive applications job_flow_role
             service_role security_groups steps emr_client w)) =
           requests w @ [(''run_job_flow'', kw)] \<and>
         map_of kw ''ReleaseLabel'' = Some (PyStr ''emr-5.30.1'') \<and>
         map_of kw ''EbsRootVolumeSize'' = Some (PyInt 10) \<and>
         map_of kw ''VisibleToAllUsers'' = Some (PyBool True) \<and>
         (\<exists>instances.
            map_of kw ''Instances'' = Some (PyDict instances) \<and>
            map_of instances ''InstanceCount'' = Some (PyInt 3) \<and>
            map_of instances ''MasterInstanceType'' = Some (PyStr ''m5.xlarge'') \<and>
            map_of instances ''SlaveInstanceType'' = Some (PyStr ''m5.xlarge''))"
proof -
  from assms obtain manager_id worker_id step_entries apps job_flow_role_name
      service_role_name where
    kw: "kw = [(''Name'', name),
              (''LogUri'', log_uri),
              (''ReleaseLabel'', PyStr ''emr-5.30.1''),
              (''Instances'', PyDict
                 [(''MasterInstanceType'', PyStr ''m5.xlarge''),
                  (''SlaveInstanceType'', PyStr ''m5.xlarge''),
                  (''InstanceCount'', PyInt 3),
                  (''KeepJobFlowAliveWhenNoSteps'', keep_alive),
                  (''EmrManagedMasterSecurityGroup'', manager_id),
                  (''EmrManagedSlaveSecurityGroup'', worker_id)]),
              (''Steps'', PyList step_entries),
              (''Applications'', PyList (map (\<lambda>app. PyDict [(''Name'', app)]) apps)),
              (''JobFlowRole'', job_flow_role_name),
              (''ServiceRole'', service_role_name),
              (''EbsRootVolumeSize'', PyInt 10),
              (''VisibleToAllUsers'', PyBool True)]"
    unfolding run_job_flow_kwargs_eq_Inr by blast
  have "map_of kw ''ReleaseLabel'' = Some (PyStr ''emr-5.30.1'')"
    by (simp add: kw)
  moreover have "map_of kw ''EbsRootVolumeSize'' = Some (PyInt 10)"
    by (simp add: kw)
  moreover have "map_of kw ''VisibleToAllUsers'' = Some (PyBool True)"
    by (simp add: kw)
  moreover have "\<exists>instances.
            map_of kw ''Instances'' = Some (PyDict instances) \<and>
            map_of instances ''InstanceCount'' = Some (PyInt 3) \<and>
            map_of instances ''MasterInstanceType'' = Some (PyStr ''m5.xlarge'') \<and>
            map_of instances ''SlaveInstanceType'' = Some (PyStr ''m5.xlarge'')"
    by (simp add: kw)
  ultimately show ?thesis
    using run_job_flow_requests [OF assms] by blast
qed

theorem run_job_flow_fixed_fields_witness:
  "requests (snd (run_job_flow (PyStr ''demo'') (PyStr ''s3://logs'') (PyBool False)
       (PyList [PyStr ''Spark'']) example_job_flow_role example_service_role
       example_security_groups (PyList example_steps) answering_client initial_world)) =
     [(''run_job_flow'', example_run_job_flow_kwargs)] \<and>
   map_of example_run_job_flow_kwargs ''ReleaseLabel'' = Some (PyStr ''emr-5.30.1'') \<and>
   map_of example_run_job_flow_kwargs ''EbsRootVolumeSize'' = Some (PyInt 10) \<and>
   map_of example_run_job_flow_kwargs ''VisibleToAllUsers'' = Some (PyBool True) \<and>
   (\<exists>instances.
      map_of example_run_job_flow_kwargs ''Instances'' = Some (PyDict instances) \<and>
      map_of instances ''InstanceCount'' = Some (PyInt 3) \<and>
      map_of instances ''MasterInstanceType'' = Some (PyStr ''m5.xlarge'') \<and>
      map_of instances ''SlaveInstanceType'' = Some (PyStr ''m5.xlarge''))"
  using run_job_flow_fixed_fields [OF example_run_job_flow_kwargs,
      of answering_client initial_world]
  by (simp add: initial_world_def)

section \<open>The requests of add_step and terminate_cluster\<close>

text \<open>
  Claim C4. \<open>add_step\<close> with name \<open>X\<close>, script URI \<open>s3://b/s.py\<close> and script arguments
  \<open>--a\<close>, \<open>1\<close> builds a request whose single step has \<open>Args\<close> exactly
  \<open>spark-submit\<close>, \<open>--deploy-mode\<close>, \<open>cluster\<close>, \<open>s3://b/s.py\<close>, \<open>--a\<close>, \<open>1\<close>; for every
  name, script URI and list of script arguments the request has exactly one step, whose
  \<open>Args\<close> are the three fixed tokens, the script URI and the script arguments in order,
  and that request is the one sent.
\<close>

theorem add_step_request_args:
  "add_step_kwargs cluster_id (PyStr ''X'') (PyStr ''s3://b/s.py'')
       (PyList [PyStr ''--a'', PyStr ''1'']) =
     Inr [(''JobFlowId'', cluster_id),
          (''Steps'', PyList
             [PyDict
                [(''Name'', PyStr ''X''),
                 (''ActionOnFailure'', PyStr ''CONTINUE''),
                 (''HadoopJarStep'', PyDict
                    [(''Jar'', PyStr ''command-runner.jar''),
                     (''Args'', PyList
                        [PyStr ''spark-submit'', PyStr ''--deploy-mode'', PyStr ''cluster'',
                         PyStr ''s3://b/s.py'', PyStr ''--a'', PyStr ''1''])])]])] \<and>
   add_step_kwargs cluster_id name script_uri (PyList script_args) =
     Inr [(''JobFlowId'', cluster_id),
          (''Steps'', PyList
             [PyDict
                [(''Name'', name),
                 (''ActionOnFailure'', PyStr ''CONTINUE''),
                 (''HadoopJarStep'', PyDict
                    [(''Jar'', PyStr ''command-runner.jar''),
                     (''Args'', PyList
                        ([PyStr ''spark-submit'', PyStr ''--deploy-mode'', PyStr ''cluster'',
                          script_uri] @ script_args))])]])] \<and>
   requests (snd (add_step cluster_id name script_uri (PyList script_args) emr_client w)) =
     requests w @
     [(''add_job_flow_steps'',
       [(''JobFlowId'', cluster_id),
        (''Steps'', PyList
           [PyDict
              [(''Name'', name),
               (''ActionOnFailure'', PyStr ''CONTINUE''),
               (''HadoopJarStep'', PyDict
                  [(''Jar'', PyStr ''command-runner.jar''),
                   (''Args'', PyList
                      ([PyStr ''spark-submit'', PyStr ''--deploy-mode'', PyStr ''cluster'',
                        script_uri] @ script_args))])]])])]"
proof -
  have k: "add_step_kwargs c n u (PyList xs) =
     Inr [(''JobFlowId'', c),
          (''Steps'', PyList
             [PyDict
                [(''Name'', n),
                 (''ActionOnFailure'', PyStr ''CONTINUE''),
                 (''HadoopJarStep'', PyDict
                    [(''Jar'', PyStr ''command-runner.jar''),
                     (''Args'', PyList
                        ([PyStr ''spark-submit'', PyStr ''--deploy-mode'', PyStr ''cluster'',
                          u] @ xs))])]])]" for c n u xs
    by (rule add_step_kwargs_eq_Inr) simp
  show ?thesis
    using k [of cluster_id "PyStr ''X''" "PyStr ''s3://b/s.py''" "[PyStr ''--a'', PyStr ''1'']"]
      k [of cluster_id name script_uri script_args]
      add_step_requests [OF k [of cluster_id name script_uri script_args], of emr_client w]
    by simp
qed

text \<open>
  Claim C5. For every cluster identifier, \<open>terminate_cluster\<close> sends a
  \<open>terminate_job_flows\<close> request whose \<open>JobFlowIds\<close> is the one-element list of that
  identifier, and when the call succeeds the function returns no value (\<open>None\<close>).
\<close>

theorem terminate_cluster_request:
  "requests (snd (terminate_cluster cluster_id emr_client w)) =
     requests w @ [(''terminate_job_flows'', [(''JobFlowIds'', PyList [cluster_id])])] \<and>
   (\<forall>response.
      client_terminate_job_flows emr_client [(''JobFlowIds'', PyList [cluster_id])] =
        Inr response \<longrightarrow>
      fst (terminate_cluster cluster_id emr_client w) = Inr PyNone)"
  by (simp add: terminate_cluster_def remote_def except_ClientError_def logger_info_def
        logger_exception_def split: sum.splits)

theorem terminate_cluster_request_witness:
  "requests (snd (terminate_cluster (PyStr ''j-ABC'') answering_client initial_world)) =
     [(''terminate_job_flows'', [(''JobFlowIds'', PyList [PyStr ''j-ABC''])])] \<and>
   fst (terminate_cluster (PyStr ''j-ABC'') answering_client initial_world) = Inr PyNone"
proof -
  have "client_terminate_job_flows answering_client
          [(''JobFlowIds'', PyList [PyStr ''j-ABC''])] = Inr (PyDict [])"
    by (simp add: answering_client_def)
  with terminate_cluster_request [of "PyStr ''j-ABC''" answering_client initial_world]
  show ?thesis
    by (simp add: initial_world_def)
qed

section \<open>Responses\<close>

text \<open>
  Claim C7. When the response to \<open>list_steps\<close> has an empty \<open>Steps\<close> list, the function
  returns the empty list and raises nothing; it logs that it got 0 steps.
\<close>

theorem list_steps_empty:
  assumes "client_list_steps emr_client [(''ClusterId'', cluster_id)] = Inr response"
    and "subscript response (PyStr ''Steps'') = Inr (PyList [])"
  shows "list_steps cluster_id emr_client w =
           (Inr (PyList []),
            w\<lparr>requests := requests w @ [(''list_steps'', [(''ClusterId'', cluster_id)])],
              records := records w @
                [\<lparr>levelname = ''INFO'', msg = ''Got %s steps for cluster %s.'',
                  args = [PyInt 0, cluster_id], exc_info = None\<rparr>]\<rparr>)"
  using assms
  by (simp add: list_steps_def remote_def except_ClientError_def logger_info_def)

theorem list_steps_empty_witness:
  "list_steps (PyStr ''j-ABC'') answering_client initial_world =
     (Inr (PyList []),
      \<lparr>records = [\<lparr>levelname = ''INFO'', msg = ''Got %s steps for cluster %s.'',
                    args = [PyInt 0, PyStr ''j-ABC''], exc_info = None\<rparr>],
       requests = [(''list_steps'', [(''ClusterId'', PyStr ''j-ABC'')])]\<rparr>)"
proof -
  have c: "client_list_steps answering_client [(''ClusterId'', PyStr ''j-ABC'')] =
      Inr (PyDict [(''Steps'', PyList [])])"
    by (simp add: answering_client_def)
  have s: "subscript (PyDict [(''Steps'', PyList [])]) (PyStr ''Steps'') = Inr (PyList [])"
    by simp
  show ?thesis
    using list_steps_empty [OF c s, of initial_world]
    by (simp add: initial_world_def)
qed

section \<open>The outcomes of the six functions\<close>

text \<open>
  Each function, case by case: the arguments of the call raise, the client raises, a
  lookup in the response raises, or the function returns. A world is only ever extended,
  by the request sent and by the records logged.
\<close>

lemmas effect_defs = remote_def except_ClientError_def logger_info_def logger_exception_def

lemma run_job_flow_kwargs_raises:
  assumes "run_job_flow_kwargs name log_uri keep_alive applications job_flow_role
             service_role security_groups steps = Inl e"
  shows "run_job_flow name log_uri keep_alive applications job_flow_role service_role
           security_groups steps emr_client w = (Inl e, w)"
  using assms run_job_flow_kwargs_not_ClientError [OF assms]
  by (simp add: run_job_flow_def effect_defs)

lemma run_job_flow_client_raises:
  assumes "run_job_flow_kwargs name log_uri keep_alive applications job_flow_role
             service_role security_groups steps = Inr kw"
    and "client_run_job_flow emr_client kw = Inl e"
  shows "run_job_flow name log_uri keep_alive applications job_flow_role service_role
           security_groups steps emr_client w =
         (Inl e,
          w\<lparr>requests := requests w @ [(''run_job_flow'', kw)],
            records := records w @
              (if is_ClientError e
               then [\<lparr>levelname = ''ERROR'', msg = ''Couldn't create cluster.'', args = [],
                      exc_info = Some e\<rparr>]
               else [])\<rparr>)"
  using assms by (simp add: run_job_flow_def effect_defs)

lemma run_job_flow_lookup_raises:
  assumes "run_job_flow_kwargs name log_uri keep_alive applications job_flow_role
             service_role security_groups steps = Inr kw"
    and "client_run_job_flow emr_client kw = Inr response"
    and "subscript response (PyStr ''JobFlowId'') = Inl e"
  shows "run_job_flow name log_uri keep_alive applications job_flow_role service_role
           security_groups steps emr_client w =
         (Inl e, w\<lparr>requests := requests w @ [(''run_job_flow'', kw)]\<rparr>)"
  using assms subscript_not_ClientError [OF assms(3)]
  by (simp add: run_job_flow_def effect_defs)

lemma run_job_flow_returns:
  assumes "run_job_flow_kwargs name log_uri keep_alive applications job_flow_role
             service_role security_groups steps = Inr kw"
    and "client_run_job_flow emr_client kw = Inr response"
    and "subscript response (PyStr ''JobFlowId'') = Inr cluster_id"
  shows "run_job_flow name log_uri keep_alive applications job_flow_role service_role
           security_groups steps emr_client w =
         (Inr cluster_id,
          w\<lparr>requests := requests w @ [(''run_job_flow'', kw)],
            records := records w @
              [\<lparr>levelname = ''INFO'', msg = ''Created cluster %s.'', args = [cluster_id],
                exc_info = None\<rparr>]\<rparr>)"
  using assms by (simp add: run_job_flow_def effect_defs)

lemma describe_cluster_client_raises:
  assumes "client_describe_cluster emr_client [(''ClusterId'', cluster_id)] = Inl e"
  shows "describe_cluster cluster_id emr_client w =
         (Inl e,
          w\<lparr>requests := requests w @ [(''describe_cluster'', [(''ClusterId'', cluster_id)])],
            records := records w @
              (if is_ClientError e
               then [\<lparr>levelname = ''ERROR'', msg = ''Couldn't get data for cluster %s.'',
                      args = [cluster_id], exc_info = Some e\<rparr>]
               else [])\<rparr>)"
  using assms by (simp add: describe_cluster_def effect_defs)

lemma describe_cluster_lookup_raises:
  assumes "client_describe_cluster emr_client [(''ClusterId'', cluster_id)] = Inr response"
    and "subscript response (PyStr ''Cluster'') = Inl e \<or>
         (\<exists>cluster. subscript response (PyStr ''Cluster'') = Inr cluster \<and>
            subscript cluster (PyStr ''Name'') = Inl e)"
  shows "describe_cluster cluster_id emr_client w =
         (Inl e,
          w\<lparr>requests := requests w @
             [(''describe_cluster'', [(''ClusterId'', cluster_id)])]\<rparr>)"
  using assms
  by (auto simp: describe_cluster_def effect_defs dest: subscript_not_ClientError)

lemma describe_cluster_returns:
  assumes "client_describe_cluster emr_client [(''ClusterId'', cluster_id)] = Inr response"
    and "subscript response (PyStr ''Cluster'') = Inr cluster"
    and "subscript cluster (PyStr ''Name'') = Inr cluster_name"
  shows "describe_cluster cluster_id emr_client w =
         (Inr cluster,
          w\<lparr>requests := requests w @ [(''describe_cluster'', [(''ClusterId'', cluster_id)])],
            records := records w @
              [\<lparr>levelname = ''INFO'', msg = ''Got data for cluster %s.'',
                args = [cluster_name], exc_info = None\<rparr>]\<rparr>)"
  using assms by (simp add: describe_cluster_def effect_defs)

lemma terminate_cluster_client_raises:
  assumes "client_terminate_job_flows emr_client [(''JobFlowIds'', PyList [cluster_id])] =
             Inl e"
  shows "terminate_cluster cluster_id emr_client w =
         (Inl e,
          w\<lparr>requests := requests w @
              [(''terminate_job_flows'', [(''JobFlowIds'', PyList [cluster_id])])],
            records := records w @
              (if is_ClientError e
               then [\<lparr>levelname = ''ERROR'', msg = ''Couldn't terminate cluster %s.'',
                      args = [cluster_id], exc_info = Some e\<rparr>]
               else [])\<rparr>)"
  using assms by (simp add: terminate_cluster_def effect_defs)

lemma terminate_cluster_returns:
  assumes "client_terminate_job_flows emr_client [(''JobFlowIds'', PyList [cluster_id])] =
             Inr response"
  shows "terminate_cluster cluster_id emr_client w =
         (Inr PyNone,
          w\<lparr>requests := requests w @
              [(''terminate_job_flows'', [(''JobFlowIds'', PyList [cluster_id])])],
            records := records w @
              [\<lparr>levelname = ''INFO'', msg = ''Terminated cluster %s.'',
                args = [cluster_id], exc_info = None\<rparr>]\<rparr>)"
  using assms by (simp add: terminate_cluster_def effect_defs)

lemma add_step_kwargs_not_ClientError:
  "add_step_kwargs cluster_id name script_uri script_args = Inl e \<Longrightarrow> \<not> is_ClientError e"
  by (auto simp: add_step_kwargs_def bind_exn_eq_Inl dest: py_iter_not_ClientError)

lemma add_step_kwargs_raises:
  assumes "add_step_kwargs cluster_id name script_uri script_args = Inl e"
  shows "add_step cluster_id name script_uri script_args emr_client w = (Inl e, w)"
  using assms add_step_kwargs_not_ClientError [OF assms]
  by (simp add: add_step_def effect_defs)

lemma add_step_client_raises:
  assumes "add_step_kwargs cluster_id name script_uri script_args = Inr kw"
    and "client_add_job_flow_steps emr_client kw = Inl e"
  shows "add_step cluster_id name script_uri script_args emr_client w =
         (Inl e,
          w\<lparr>requests := requests w @ [(''add_job_flow_steps'', kw)],
            records := records w @
              (if is_ClientError e
               then [\<lparr>levelname = ''ERROR'', msg = ''Couldn't start step %s with URI %s.'',
                      args = [name, script_uri], exc_info = Some e\<rparr>]
               else [])\<rparr>)"
  using assms by (simp add: add_step_def effect_defs)

lemma add_step_lookup_raises:
  assumes "add_step_kwargs cluster_id name script_uri script_args = Inr kw"
    and "client_add_job_flow_steps emr_client kw = Inr response"
    and "subscript response (PyStr ''StepIds'') = Inl e \<or>
         (\<exists>step_ids. subscript response (PyStr ''StepIds'') = Inr step_ids \<and>
            subscript step_ids (PyInt 0) = Inl e)"
  shows "add_step cluster_id name script_uri script_args emr_client w =
         (Inl e, w\<lparr>requests := requests w @ [(''add_job_flow_steps'', kw)]\<rparr>)"
  using assms
  by (auto simp: add_step_def effect_defs dest: subscript_not_ClientError)

lemma add_step_returns:
  assumes "add_step_kwargs cluster_id name script_uri script_args = Inr kw"
    and "client_add_job_flow_steps emr_client kw = Inr response"
    and "subscript response (PyStr ''StepIds'') = Inr step_ids"
    and "subscript step_ids (PyInt 0) = Inr step_id"
  shows "add_step cluster_id name script_uri script_args emr_client w =
         (Inr step_id,
          w\<lparr>requests := requests w @ [(''add_job_flow_steps'', kw)],
            records := records w @
              [\<lparr>levelname = ''INFO'', msg = ''Started step with ID %s'',
                args = [step_id], exc_info = None\<rparr>]\<rparr>)"
  using assms by (simp add: add_step_def effect_defs)

lemma list_steps_client_raises:
  assumes "client_list_steps emr_client [(''ClusterId'', cluster_id)] = Inl e"
  shows "list_steps cluster_id emr_client w =
         (Inl e,
          w\<lparr>requests := requests w @ [(''list_steps'', [(''ClusterId'', cluster_id)])],
            records := records w @
              (if is_ClientError e
               then [\<lparr>levelname = ''ERROR'', msg = ''Couldn't get steps for cluster %s.'',
                      args = [cluster_id], exc_info = Some e\<rparr>]
               else [])\<rparr>)"
  using assms by (simp add: list_steps_def effect_defs)

lemma list_steps_lookup_raises:
  assumes "client_list_steps emr_client [(''ClusterId'', cluster_id)] = Inr response"
    and "subscript response (PyStr ''Steps'') = Inl e \<or>
         (\<exists>steps. subscript response (PyStr ''Steps'') = Inr steps \<and> py_len steps = Inl e)"
  shows "list_steps cluster_id emr_client w =
         (Inl e,
          w\<lparr>requests := requests w @ [(''list_steps'', [(''ClusterId'', cluster_id)])]\<rparr>)"
  using assms
  by (auto simp: list_steps_def effect_defs
           dest: subscript_not_ClientError py_len_not_ClientError)

lemma list_steps_returns:
  assumes "client_list_steps emr_client [(''ClusterId'', cluster_id)] = Inr response"
    and "subscript response (PyStr ''Steps'') = Inr steps"
    and "py_len steps = Inr n"
  shows "list_steps cluster_id emr_client w =
         (Inr steps,
          w\<lparr>requests := requests w @ [(''list_steps'', [(''ClusterId'', cluster_id)])],
            records := records w @
              [\<lparr>levelname = ''INFO'', msg = ''Got %s steps for cluster %s.'',
                args = [PyInt n, cluster_id], exc_info = None\<rparr>]\<rparr>)"
  using assms by (simp add: list_steps_def effect_defs)

lemma describe_step_client_raises:
  assumes "client_describe_step emr_client
             [(''ClusterId'', cluster_id), (''StepId'', step_id)] = Inl e"
  shows "describe_step cluster_id step_id emr_client w =
         (Inl e,
          w\<lparr>requests := requests w @
              [(''describe_step'', [(''ClusterId'', cluster_id), (''StepId'', step_id)])],
            records := records w @
              (if is_ClientError e
               then [\<lparr>levelname = ''ERROR'', msg = ''Couldn't get data for step %s.'',
                      args = [step_id], exc_info = Some e\<rparr>]
               else [])\<rparr>)"
  using assms by (simp add: describe_step_def effect_defs)

lemma describe_step_lookup_raises:
  assumes "client_describe_step emr_client
             [(''ClusterId'', cluster_id), (''StepId'', step_id)] = Inr response"
    and "subscript response (PyStr ''Step'') = Inl e"
  shows "describe_step cluster_id step_id emr_client w =
         (Inl e,
          w\<lparr>requests := requests w @
              [(''describe_step'', [(''ClusterId'', cluster_id), (''StepId'', step_id)])]\<rparr>)"
  using assms subscript_not_ClientError [OF assms(2)]
  by (simp add: describe_step_def effect_defs)

lemma describe_step_returns:
  assumes "client_describe_step emr_client
             [(''ClusterId'', cluster_id), (''StepId'', step_id)] = Inr response"
    and "subscript response (PyStr ''Step'') = Inr step"
  shows "describe_step cluster_id step_id emr_client w =
         (Inr step,
          w\<lparr>requests := requests w @
              [(''describe_step'', [(''ClusterId'', cluster_id), (''StepId'', step_id)])],
            records := records w @
              [\<lparr>levelname = ''INFO'', msg = ''Got data for step %s.'',
                args = [step_id], exc_info = None\<rparr>]\<rparr>)"
  using assms by (simp add: describe_step_def effect_defs)

lemma run_job_flow_raises_records:
  assumes "fst (run_job_flow name log_uri keep_alive applications job_flow_role service_role
          security_groups steps emr_client w) = Inl e"
  shows "records (snd (run_job_flow name log_uri keep_alive applications job_flow_role service_role
          security_groups steps emr_client w)) =
           records w @
           (if is_ClientError e
            then [\<lparr>levelname = ''ERROR'', msg = ''Couldn't create cluster.'',
                   args = [], exc_info = Some e\<rparr>]
            else [])"
  using assms
  by (auto simp: run_job_flow_def effect_defs split: sum.splits
           dest: subscript_not_ClientError py_len_not_ClientError run_job_flow_kwargs_not_ClientError)

lemma describe_cluster_raises_records:
  assumes "fst (describe_cluster cluster_id emr_client w) = Inl e"
  shows "records (snd (describe_cluster cluster_id emr_client w)) =
           records w @
           (if is_ClientError e
            then [\<lparr>levelname = ''ERROR'', msg = ''Couldn't get data for cluster %s.'',
                   args = [cluster_id], exc_info = Some e\<rparr>]
            else [])"
  using assms
  by (auto simp: describe_cluster_def effect_defs split: sum.splits
           dest: subscript_not_ClientError py_len_not_ClientError)

lemma terminate_cluster_raises_records:
  assumes "fst (terminate_cluster cluster_id emr_client w) = Inl e"
  shows "records (snd (terminate_cluster cluster_id emr_client w)) =
           records w @
           (if is_ClientError e
            then [\<lparr>levelname = ''ERROR'', msg = ''Couldn't terminate cluster %s.'',
                   args = [cluster_id], exc_info = Some e\<rparr>]
            else [])"
  using assms
  by (auto simp: terminate_cluster_def effect_defs split: sum.splits
           dest: subscript_not_ClientError py_len_not_ClientError)

lemma add_step_raises_records:
  assumes "fst (add_step cluster_id step_name script_uri script_args emr_client w) = Inl e"
  shows "records (snd (add_step cluster_id step_name script_uri script_args emr_client w)) =
           records w @
           (if is_ClientError e
            then [\<lparr>levelname = ''ERROR'', msg = ''Couldn't start step %s with URI %s.'',
                   args = [step_name, script_uri], exc_info = Some e\<rparr>]
            else [])"
  using assms
  by (auto simp: add_step_def effect_defs split: sum.splits
           dest: subscript_not_ClientError py_len_not_ClientError add_step_kwargs_not_ClientError)

lemma list_steps_raises_records:
  assumes "fst (list_steps cluster_id emr_client w) = Inl e"
  shows "records (snd (list_steps cluster_id emr_client w)) =
           records w @
           (if is_ClientError e
            then [\<lparr>levelname = ''ERROR'', msg = ''Couldn't get steps for cluster %s.'',
                   args = [cluster_id], exc_info = Some e\<rparr>]
            else [])"
  using assms
  by (auto simp: list_steps_def effect_defs split: sum.splits
           dest: subscript_not_ClientError py_len_not_ClientError)

lemma describe_step_raises_records:
  assumes "fst (describe_step cluster_id step_id emr_client w) = Inl e"
  shows "records (snd (describe_step cluster_id step_id emr_client w)) =
           records w @
           (if is_ClientError e
            then [\<lparr>levelname = ''ERROR'', msg = ''Couldn't get data for step %s.'',
                   args = [step_id], exc_info = Some e\<rparr>]
            else [])"
  using assms
  by (auto simp: describe_step_def effect_defs split: sum.splits
           dest: subscript_not_ClientError py_len_not_ClientError)

section \<open>The example clients\<close>

lemma refused_client_simps:
  "client_run_job_flow refused_client kw = Inl access_denied"
  "client_describe_cluster refused_client kw = Inl access_denied"
  "client_terminate_job_flows refused_client kw = Inl access_denied"
  "client_add_job_flow_steps refused_client kw = Inl access_denied"
  "client_list_steps refused_client kw = Inl access_denied"
  "client_describe_step refused_client kw = Inl access_denied"
  by (simp_all add: refused_client_def)

lemma is_ClientError_access_denied: "is_ClientError access_denied"
  by (simp add: access_denied_def)

lemma answering_client_simps:
  "client_run_job_flow answering_client kw = Inr (PyDict [(''JobFlowId'', PyStr ''j-ABC'')])"
  "client_describe_cluster answering_client kw =
     Inr (PyDict [(''Cluster'', PyDict [(''Id'', PyStr ''j-ABC''), (''Name'', PyStr ''demo'')])])"
  "client_terminate_job_flows answering_client kw = Inr (PyDict [])"
  "client_add_job_flow_steps answering_client kw =
     Inr (PyDict [(''StepIds'', PyList [PyStr ''s-1''])])"
  "client_list_steps answering_client kw = Inr (PyDict [(''Steps'', PyList [])])"
  "client_describe_step answering_client kw =
     Inr (PyDict [(''Step'', PyDict [(''Id'', PyStr ''s-1'')])])"
  by (simp_all add: answering_client_def)

lemma unreachable_client_simps:
  "client_run_job_flow unreachable_client kw = Inl (OtherException ''EndpointConnectionError'')"
  "client_describe_cluster unreachable_client kw =
     Inl (OtherException ''EndpointConnectionError'')"
  "client_terminate_job_flows unreachable_client kw =
     Inl (OtherException ''EndpointConnectionError'')"
  "client_add_job_flow_steps unreachable_client kw =
     Inl (OtherException ''EndpointConnectionError'')"
  "client_list_steps unreachable_client kw = Inl (OtherException ''EndpointConnectionError'')"
  "client_describe_step unreachable_client kw =
     Inl (OtherException ''EndpointConnectionError'')"
  by (simp_all add: unreachable_client_def)

lemma empty_response_client_simps:
  "client_run_job_flow empty_response_client kw = Inr (PyDict [])"
  "client_describe_cluster empty_response_client kw = Inr (PyDict [])"
  "client_terminate_job_flows empty_response_client kw = Inr (PyDict [])"
  "client_add_job_flow_steps empty_response_client kw = Inr (PyDict [])"
  "client_list_steps empty_response_client kw = Inr (PyDict [])"
  "client_describe_step empty_response_client kw = Inr (PyDict [])"
  by (simp_all add: empty_response_client_def)

lemma malformed_response_client_simps:
  "client_describe_cluster malformed_response_client kw =
     Inr (PyDict [(''Cluster'', PyDict [])])"
  "client_add_job_flow_steps malformed_response_client kw =
     Inr (PyDict [(''StepIds'', PyList [])])"
  "client_list_steps malformed_response_client kw = Inr (PyDict [(''Steps'', PyNone)])"
  by (simp_all add: malformed_response_client_def)

section \<open>Failures of the remote call\<close>

text \<open>
  Claim C2, as amended. In each of the six functions, when the client call raises a
  \<^verbatim>\<open>ClientError\<close>, the function raises that same exception and logs exactly one
  record, at level ERROR, with the exception attached: the function's fixed message and
  its arguments, which are the cluster identifier for \<open>describe_cluster\<close>,
  \<open>terminate_cluster\<close> and \<open>list_steps\<close>, the step name and script URI for \<open>add_step\<close>,
  the step identifier for \<open>describe_step\<close>, and none for \<open>run_job_flow\<close>. A failure
  of the client call that is not a \<^verbatim>\<open>ClientError\<close> is raised unchanged as well, in
  each of the six functions, and then no record is logged. In both cases the request has
  been sent and the world is otherwise as it was.
\<close>

theorem client_error_logged_and_reraised:
  "(\<forall>kw. run_job_flow_kwargs name log_uri keep_alive applications job_flow_role
             service_role security_groups steps = Inr kw \<and>
           client_run_job_flow emr_client kw = Inl e \<longrightarrow>
        run_job_flow name log_uri keep_alive applications job_flow_role service_role
             security_groups steps emr_client w =
          (Inl e,
           w\<lparr>requests := requests w @
               [(''run_job_flow'', kw)],
             records := records w @
               (if is_ClientError e
                then [\<lparr>levelname = ''ERROR'', msg = ''Couldn't create cluster.'',
                       args = [], exc_info = Some e\<rparr>]
                else [])\<rparr>)) \<and>
     (client_describe_cluster emr_client
          [(''ClusterId'', cluster_id)] = Inl e \<longrightarrow>
        describe_cluster cluster_id emr_client w =
          (Inl e,
           w\<lparr>requests := requests w @
               [(''describe_cluster'', [(''ClusterId'', cluster_id)])],
             records := records w @
               (if is_ClientError e
                then [\<lparr>levelname = ''ERROR'', msg = ''Couldn't get data for cluster %s.'',
                       args = [cluster_id], exc_info = Some e\<rparr>]
                else [])\<rparr>)) \<and>
     (client_terminate_job_flows emr_client
          [(''JobFlowIds'', PyList [cluster_id])] = Inl e \<longrightarrow>
        terminate_cluster cluster_id emr_client w =
          (Inl e,
           w\<lparr>requests := requests w @
               [(''terminate_job_flows'', [(''JobFlowIds'', PyList [cluster_id])])],
             records := records w @
               (if is_ClientError e
                then [\<lparr>levelname = ''ERROR'', msg = ''Couldn't terminate cluster %s.'',
                       args = [cluster_id], exc_info = Some e\<rparr>]
                else [])\<rparr>)) \<and>
     (\<forall>kw. add_step_kwargs cluster_id step_name script_uri script_args = Inr kw \<and>
           client_add_job_flow_steps emr_client kw = Inl e \<longrightarrow>
        add_step cluster_id step_name script_uri script_args emr_client w =
          (Inl e,
           w\<lparr>requests := requests w @
               [(''add_job_flow_steps'', kw)],
             records := records w @
               (if is_ClientError e
                then [\<lparr>levelname = ''ERROR'', msg = ''Couldn't start step %s with URI %s.'',
                       args = [step_name, script_uri], exc_info = Some e\<rparr>]
                else [])\<rparr>)) \<and>
     (client_list_steps emr_client
          [(''ClusterId'', cluster_id)] = Inl e \<longrightarrow>
        list_steps cluster_id emr_client w =
          (Inl e,
           w\<lparr>requests := requests w @
               [(''list_steps'', [(''ClusterId'', cluster_id)])],
             records := records w @
               (if is_ClientError e
                then [\<lparr>levelname = ''ERROR'', msg = ''Couldn't get steps for cluster %s.'',
                       args = [cluster_id], exc_info = Some e\<rparr>]
                else [])\<rparr>)) \<and>
     (client_describe_step emr_client
          [(''ClusterId'', cluster_id), (''StepId'', step_id)] = Inl e \<longrightarrow>
        describe_step cluster_id step_id emr_client w =
          (Inl e,
           w\<lparr>requests := requests w @
               [(''describe_step'', [(''ClusterId'', cluster_id), (''StepId'', step_id)])],
             records := records w @
               (if is_ClientError e
                then [\<lparr>levelname = ''ERROR'', msg = ''Couldn't get data for step %s.'',
                       args = [step_id], exc_info = Some e\<rparr>]
                else [])\<rparr>))"
  by (simp add: run_job_flow_client_raises describe_cluster_client_raises
        terminate_cluster_client_raises add_step_client_raises list_steps_client_raises
        describe_step_client_raises)

theorem client_error_logged_and_reraised_witness:
  "run_job_flow (PyStr ''demo'') (PyStr ''s3://logs'') (PyBool False)
       (PyList [PyStr ''Spark'']) example_job_flow_role example_service_role
       example_security_groups (PyList example_steps) refused_client initial_world =
     (Inl access_denied,
      \<lparr>records = [\<lparr>levelname = ''ERROR'', msg = ''Couldn't create cluster.'',
                    args = [], exc_info = Some access_denied\<rparr>],
       requests = [(''run_job_flow'', example_run_job_flow_kwargs)]\<rparr>) \<and>
   describe_cluster (PyStr ''j-ABC'') refused_client initial_world =
     (Inl access_denied,
      \<lparr>records = [\<lparr>levelname = ''ERROR'', msg = ''Couldn't get data for cluster %s.'',
                    args = [PyStr ''j-ABC''], exc_info = Some access_denied\<rparr>],
       requests = [(''describe_cluster'', [(''ClusterId'', PyStr ''j-ABC'')])]\<rparr>) \<and>
   terminate_cluster (PyStr ''j-ABC'') refused_client initial_world =
     (Inl access_denied,
      \<lparr>records = [\<lparr>levelname = ''ERROR'', msg = ''Couldn't terminate cluster %s.'',
                    args = [PyStr ''j-ABC''], exc_info = Some access_denied\<rparr>],
       requests = [(''terminate_job_flows'', [(''JobFlowIds'', PyList [PyStr ''j-ABC''])])]\<rparr>) \<and>
   add_step (PyStr ''j-ABC'') (PyStr ''X'') (PyStr ''s3://b/s.py'')
       (PyList [PyStr ''--a'', PyStr ''1'']) refused_client initial_world =
     (Inl access_denied,
      \<lparr>records = [\<lparr>levelname = ''ERROR'', msg = ''Couldn't start step %s with URI %s.'',
                    args = [PyStr ''X'', PyStr ''s3://b/s.py''], exc_info = Some access_denied\<rparr>],
       requests = [(''add_job_flow_steps'', [(''JobFlowId'', PyStr ''j-ABC''),
          (''Steps'', PyList
             [PyDict
                [(''Name'', PyStr ''X''),
                 (''ActionOnFailure'', PyStr ''CONTINUE''),
                 (''HadoopJarStep'', PyDict
                    [(''Jar'', PyStr ''command-runner.jar''),
                     (''Args'', PyList
                        [PyStr ''spark-submit'', PyStr ''--deploy-mode'', PyStr ''cluster'',
                         PyStr ''s3://b/s.py'', PyStr ''--a'', PyStr ''1''])])]])])]\<rparr>) \<and>
   list_steps (PyStr ''j-ABC'') refused_client initial_world =
     (Inl access_denied,
      \<lparr>records = [\<lparr>levelname = ''ERROR'', msg = ''Couldn't get steps for cluster %s.'',
                    args = [PyStr ''j-ABC''], exc_info = Some access_denied\<rparr>],
       requests = [(''list_steps'', [(''ClusterId'', PyStr ''j-ABC'')])]\<rparr>) \<and>
   describe_step (PyStr ''j-ABC'') (PyStr ''s-1'') refused_client initial_world =
     (Inl access_denied,
      \<lparr>records = [\<lparr>levelname = ''ERROR'', msg = ''Couldn't get data for step %s.'',
                    args = [PyStr ''s-1''], exc_info = Some access_denied\<rparr>],
       requests = [(''describe_step'', [(''ClusterId'', PyStr ''j-ABC''), (''StepId'', PyStr ''s-1'')])]\<rparr>) \<and>
   run_job_flow (PyStr ''demo'') (PyStr ''s3://logs'') (PyBool False)
       (PyList [PyStr ''Spark'']) example_job_flow_role example_service_role
       example_security_groups (PyList example_steps) unreachable_client initial_world =
     (Inl (OtherException ''EndpointConnectionError''),
      \<lparr>records = [],
       requests = [(''run_job_flow'', example_run_job_flow_kwargs)]\<rparr>) \<and>
   describe_cluster (PyStr ''j-ABC'') unreachable_client initial_world =
     (Inl (OtherException ''EndpointConnectionError''),
      \<lparr>records = [],
       requests = [(''describe_cluster'', [(''ClusterId'', PyStr ''j-ABC'')])]\<rparr>) \<and>
   terminate_cluster (PyStr ''j-ABC'') unreachable_client initial_world =
     (Inl (OtherException ''EndpointConnectionError''),
      \<lparr>records = [],
       requests = [(''terminate_job_flows'', [(''JobFlowIds'', PyList [PyStr ''j-ABC''])])]\<rparr>) \<and>
   add_step (PyStr ''j-ABC'') (PyStr ''X'') (PyStr ''s3://b/s.py'')
       (PyList [PyStr ''--a'', PyStr ''1'']) unreachable_client initial_world =
     (Inl (OtherException ''EndpointConnectionError''),
      \<lparr>records = [],
       requests = [(''add_job_flow_steps'', [(''JobFlowId'', PyStr ''j-ABC''),
          (''Steps'', PyList
             [PyDict
                [(''Name'', PyStr ''X''),
                 (''ActionOnFailure'', PyStr ''CONTINUE''),
                 (''HadoopJarStep'', PyDict
                    [(''Jar'', PyStr ''command-runner.jar''),
                     (''Args'', PyList
                        [PyStr ''spark-submit'', PyStr ''--deploy-mode'', PyStr ''cluster'',
                         PyStr ''s3://b/s.py'', PyStr ''--a'', PyStr ''1''])])]])])]\<rparr>) \<and>
   list_steps (PyStr ''j-ABC'') unreachable_client initial_world =
     (Inl (OtherException ''EndpointConnectionError''),
      \<lparr>records = [],
       requests = [(''list_steps'', [(''ClusterId'', PyStr ''j-ABC'')])]\<rparr>) \<and>
   describe_step (PyStr ''j-ABC'') (PyStr ''s-1'') unreachable_client initial_world =
     (Inl (OtherException ''EndpointConnectionError''),
      \<lparr>records = [],
       requests = [(''describe_step'', [(''ClusterId'', PyStr ''j-ABC''), (''StepId'', PyStr ''s-1'')])]\<rparr>)"
  using client_error_logged_and_reraised
     [where emr_client = refused_client and e = access_denied and
        name = "PyStr ''demo''" and log_uri = "PyStr ''s3://logs''" and
        keep_alive = "PyBool False" and applications = "PyList [PyStr ''Spark'']" and
        job_flow_role = example_job_flow_role and service_role = example_service_role and
        security_groups = example_security_groups and steps = "PyList example_steps" and
        w = initial_world and cluster_id = "PyStr ''j-ABC''" and step_name = "PyStr ''X''" and
        script_uri = "PyStr ''s3://b/s.py''" and
        script_args = "PyList [PyStr ''--a'', PyStr ''1'']" and step_id = "PyStr ''s-1''"]
    client_error_logged_and_reraised
     [where emr_client = unreachable_client and
        e = "OtherException ''EndpointConnectionError''" and
        name = "PyStr ''demo''" and log_uri = "PyStr ''s3://logs''" and
        keep_alive = "PyBool False" and applications = "PyList [PyStr ''Spark'']" and
        job_flow_role = example_job_flow_role and service_role = example_service_role and
        security_groups = example_security_groups and steps = "PyList example_steps" and
        w = initial_world and cluster_id = "PyStr ''j-ABC''" and step_name = "PyStr ''X''" and
        script_uri = "PyStr ''s3://b/s.py''" and
        script_args = "PyList [PyStr ''--a'', PyStr ''1'']" and step_id = "PyStr ''s-1''"]
  by (simp add: refused_client_simps unreachable_client_simps example_run_job_flow_kwargs
        initial_world_def add_step_kwargs_def is_ClientError_access_denied)

text \<open>
  The claim as first stated fails: a client that cannot reach the service raises an
  exception that is not a \<^verbatim>\<open>ClientError\<close>; \<open>describe_cluster\<close> raises it and logs
  nothing.
\<close>

theorem remote_failure_not_logged_counterexample:
  "client_describe_cluster unreachable_client [(''ClusterId'', PyStr ''j-ABC'')] =
     Inl (OtherException ''EndpointConnectionError'') \<and>
   describe_cluster (PyStr ''j-ABC'') unreachable_client initial_world =
     (Inl (OtherException ''EndpointConnectionError''),
      \<lparr>records = [],
       requests = [(''describe_cluster'', [(''ClusterId'', PyStr ''j-ABC'')])]\<rparr>)"
  by (simp add: unreachable_client_def initial_world_def describe_cluster_def effect_defs)

text \<open>
  Claim C10. In each of the six functions the handler applies to \<^verbatim>\<open>ClientError\<close> and
  to nothing else. Whenever a function raises, the records it has logged are exactly one
  ERROR record when the exception is a \<^verbatim>\<open>ClientError\<close> and none otherwise; an
  exception raised by the client call is the one the function raises; and every other
  exception of the \<^verbatim>\<open>try\<close> body is not a \<^verbatim>\<open>ClientError\<close> and is raised by the
  function as it is: a failure while the arguments of the call are built
  (\<open>run_job_flow\<close>, \<open>add_step\<close>), a failed lookup of the documented field in a
  successful response (\<open>JobFlowId\<close>, \<open>Cluster\<close>, \<open>StepIds\<close>, \<open>Steps\<close>, \<open>Step\<close>), and
  a failure of \<^verbatim>\<open>cluster["Name"]\<close>, \<^verbatim>\<open>StepIds[0]\<close> or \<^verbatim>\<open>len(steps)\<close>.
\<close>

theorem only_ClientError_is_logged:
  "(\<forall>e. fst (run_job_flow name log_uri keep_alive applications job_flow_role service_role
            security_groups steps emr_client w) = Inl e \<longrightarrow>
      records (snd (run_job_flow name log_uri keep_alive applications job_flow_role service_role
            security_groups steps emr_client w)) =
        records w @
        (if is_ClientError e
         then [\<lparr>levelname = ''ERROR'', msg = ''Couldn't create cluster.'',
                args = [], exc_info = Some e\<rparr>]
         else [])) \<and>
   (\<forall>e.
      run_job_flow_kwargs name log_uri keep_alive applications job_flow_role
          service_role security_groups steps = Inl e \<longrightarrow>
      \<not> is_ClientError e \<and>
      fst (run_job_flow name log_uri keep_alive applications job_flow_role service_role
            security_groups steps emr_client w) = Inl e) \<and>
   (\<forall>kw e.
      run_job_flow_kwargs name log_uri keep_alive applications job_flow_role
          service_role security_groups steps = Inr kw \<and>
      client_run_job_flow emr_client kw = Inl e \<longrightarrow>
      fst (run_job_flow name log_uri keep_alive applications job_flow_role service_role
            security_groups steps emr_client w) = Inl e) \<and>
   (\<forall>kw response e.
      run_job_flow_kwargs name log_uri keep_alive applications job_flow_role
          service_role security_groups steps = Inr kw \<and>
      client_run_job_flow emr_client kw = Inr response \<and>
      subscript response (PyStr ''JobFlowId'') = Inl e \<longrightarrow>
      \<not> is_ClientError e \<and>
      fst (run_job_flow name log_uri keep_alive applications job_flow_role service_role
            security_groups steps emr_client w) = Inl e) \<and>
   (\<forall>e. fst (describe_cluster cluster_id emr_client w) = Inl e \<longrightarrow>
      records (snd (describe_cluster cluster_id emr_client w)) =
        records w @
        (if is_ClientError e
         then [\<lparr>levelname = ''ERROR'', msg = ''Couldn't get data for cluster %s.'',
                args = [cluster_id], exc_info = Some e\<rparr>]
         else [])) \<and>
   (\<forall>e.
      client_describe_cluster emr_client [(''ClusterId'', cluster_id)] = Inl e \<longrightarrow>
      fst (describe_cluster cluster_id emr_client w) = Inl e) \<and>
   (\<forall>response e.
      client_describe_cluster emr_client [(''ClusterId'', cluster_id)] = Inr response \<and>
      subscript response (PyStr ''Cluster'') = Inl e \<longrightarrow>
      \<not> is_ClientError e \<and>
      fst (describe_cluster cluster_id emr_client w) = Inl e) \<and>
   (\<forall>response cluster e.
      client_describe_cluster emr_client [(''ClusterId'', cluster_id)] = Inr response \<and>
      subscript response (PyStr ''Cluster'') = Inr cluster \<and>
      subscript cluster (PyStr ''Name'') = Inl e \<longrightarrow>
      \<not> is_ClientError e \<and>
      fst (describe_cluster cluster_id emr_client w) = Inl e) \<and>
   (\<forall>e. fst (terminate_cluster cluster_id emr_client w) = Inl e \<longrightarrow>
      records (snd (terminate_cluster cluster_id emr_client w)) =
        records w @
        (if is_ClientError e
         then [\<lparr>levelname = ''ERROR'', msg = ''Couldn't terminate cluster %s.'',
                args = [cluster_id], exc_info = Some e\<rparr>]
         else [])) \<and>
   (\<forall>e.
      client_terminate_job_flows emr_client [(''JobFlowIds'', PyList [cluster_id])] =
        Inl e \<longrightarrow>
      fst (terminate_cluster cluster_id emr_client w) = Inl e) \<and>
   (\<forall>e. fst (add_step cluster_id step_name script_uri script_args emr_client w) = Inl e \<longrightarrow>
      records (snd (add_step cluster_id step_name script_uri script_args emr_client w)) =
        records w @
        (if is_ClientError e
         then [\<lparr>levelname = ''ERROR'', msg = ''Couldn't start step %s with URI %s.'',
                args = [step_name, script_uri], exc_info = Some e\<rparr>]
         else [])) \<and>
   (\<forall>e.
      add_step_kwargs cluster_id step_name script_uri script_args = Inl e \<longrightarrow>
      \<not> is_ClientError e \<and>
      fst (add_step cluster_id step_name script_uri script_args emr_client w) = Inl e) \<and>
   (\<forall>kw e.
      add_step_kwargs cluster_id step_name script_uri script_args = Inr kw \<and>
      client_add_job_flow_steps emr_client kw = Inl e \<longrightarrow>
      fst (add_step cluster_id step_name script_uri script_args emr_client w) = Inl e) \<and>
   (\<forall>kw response e.
      add_step_kwargs cluster_id step_name script_uri script_args = Inr kw \<and>
      client_add_job_flow_steps emr_client kw = Inr response \<and>
      subscript response (PyStr ''StepIds'') = Inl e \<longrightarrow>
      \<not> is_ClientError e \<and>
      fst (add_step cluster_id step_name script_uri script_args emr_client w) = Inl e) \<and>
   (\<forall>kw response step_ids e.
      add_step_kwargs cluster_id step_name script_uri script_args = Inr kw \<and>
      client_add_job_flow_steps emr_client kw = Inr response \<and>
      subscript response (PyStr ''StepIds'') = Inr step_ids \<and>
      subscript step_ids (PyInt 0) = Inl e \<longrightarrow>
      \<not> is_ClientError e \<and>
      fst (add_step cluster_id step_name script_uri script_args emr_client w) = Inl e) \<and>
   (\<forall>e. fst (list_steps cluster_id emr_client w) = Inl e \<longrightarrow>
      records (snd (list_steps cluster_id emr_client w)) =
        records w @
        (if is_ClientError e
         then [\<lparr>levelname = ''ERROR'', msg = ''Couldn't get steps for cluster %s.'',
                args = [cluster_id], exc_info = Some e\<rparr>]
         else [])) \<and>
   (\<forall>e.
      client_list_steps emr_client [(''ClusterId'', cluster_id)] = Inl e \<longrightarrow>
      fst (list_steps cluster_id emr_client w) = Inl e) \<and>
   (\<forall>response e.
      client_list_steps emr_client [(''ClusterId'', cluster_id)] = Inr response \<and>
      subscript response (PyStr ''Steps'') = Inl e \<longrightarrow>
      \<not> is_ClientError e \<and>
      fst (list_steps cluster_id emr_client w) = Inl e) \<and>
   (\<forall>response steps e.
      client_list_steps emr_client [(''ClusterId'', cluster_id)] = Inr response \<and>
      subscript response (PyStr ''Steps'') = Inr steps \<and>
      py_len steps = Inl e \<longrightarrow>
      \<not> is_ClientError e \<and>
      fst (list_steps cluster_id emr_client w) = Inl e) \<and>
   (\<forall>e. fst (describe_step cluster_id step_id emr_client w) = Inl e \<longrightarrow>
      records (snd (describe_step cluster_id step_id emr_client w)) =
        records w @
        (if is_ClientError e
         then [\<lparr>levelname = ''ERROR'', msg = ''Couldn't get data for step %s.'',
                args = [step_id], exc_info = Some e\<rparr>]
         else [])) \<and>
   (\<forall>e.
      client_describe_step emr_client
        [(''ClusterId'', cluster_id), (''StepId'', step_id)] = Inl e \<longrightarrow>
      fst (describe_step cluster_id step_id emr_client w) = Inl e) \<and>
   (\<forall>response e.
      client_describe_step emr_client
        [(''ClusterId'', cluster_id), (''StepId'', step_id)] = Inr response \<and>
      subscript response (PyStr ''Step'') = Inl e \<longrightarrow>
      \<not> is_ClientError e \<and>
      fst (describe_step cluster_id step_id emr_client w) = Inl e)"
  by (simp add: run_job_flow_raises_records describe_cluster_raises_records
        terminate_cluster_raises_records add_step_raises_records list_steps_raises_records
        describe_step_raises_records run_job_flow_kwargs_raises run_job_flow_client_raises
        run_job_flow_lookup_raises describe_cluster_client_raises
        describe_cluster_lookup_raises terminate_cluster_client_raises
        add_step_kwargs_raises add_step_client_raises add_step_lookup_raises
        list_steps_client_raises list_steps_lookup_raises describe_step_client_raises
        describe_step_lookup_raises)
     (blast dest: subscript_not_ClientError py_len_not_ClientError
        run_job_flow_kwargs_not_ClientError add_step_kwargs_not_ClientError)

theorem only_ClientError_is_logged_witness:
  "fst (list_steps (PyStr ''j-ABC'') refused_client initial_world) =
     Inl access_denied \<and>
   records (snd (list_steps (PyStr ''j-ABC'') refused_client initial_world)) =
     [\<lparr>levelname = ''ERROR'', msg = ''Couldn't get steps for cluster %s.'',
       args = [PyStr ''j-ABC''], exc_info = Some access_denied\<rparr>] \<and>
   fst (list_steps (PyStr ''j-ABC'') unreachable_client initial_world) =
     Inl (OtherException ''EndpointConnectionError'') \<and>
   records (snd (list_steps (PyStr ''j-ABC'') unreachable_client initial_world)) =
     [] \<and>
   fst (list_steps (PyStr ''j-ABC'') empty_response_client initial_world) =
     Inl (KeyError (PyStr ''Steps'')) \<and>
   records (snd (list_steps (PyStr ''j-ABC'') empty_response_client initial_world)) =
     [] \<and>
   fst (run_job_flow (PyStr ''demo'') (PyStr ''s3://logs'') (PyBool False)
       (PyList [PyStr ''Spark'']) example_job_flow_role example_service_role
       example_security_groups (PyList example_steps) empty_response_client initial_world) =
     Inl (KeyError (PyStr ''JobFlowId'')) \<and>
   records (snd (run_job_flow (PyStr ''demo'') (PyStr ''s3://logs'') (PyBool False)
       (PyList [PyStr ''Spark'']) example_job_flow_role example_service_role
       example_security_groups (PyList example_steps) empty_response_client initial_world)) =
     [] \<and>
   fst (run_job_flow (PyStr ''demo'') (PyStr ''s3://logs'') (PyBool False)
       (PyList [PyStr ''Spark'']) example_job_flow_role example_service_role
       workerless_security_groups (PyList example_steps) answering_client initial_world) =
     Inl (KeyError (PyStr ''worker'')) \<and>
   records (snd (run_job_flow (PyStr ''demo'') (PyStr ''s3://logs'') (PyBool False)
       (PyList [PyStr ''Spark'']) example_job_flow_role example_service_role
       workerless_security_groups (PyList example_steps) answering_client initial_world)) =
     [] \<and>
   fst (describe_cluster (PyStr ''j-ABC'') malformed_response_client initial_world) =
     Inl (KeyError (PyStr ''Name'')) \<and>
   records (snd (describe_cluster (PyStr ''j-ABC'') malformed_response_client initial_world)) =
     [] \<and>
   fst (add_step (PyStr ''j-ABC'') (PyStr ''X'') (PyStr ''s3://b/s.py'')
       (PyList [PyStr ''--a'', PyStr ''1'']) malformed_response_client initial_world) =
     Inl IndexError \<and>
   records (snd (add_step (PyStr ''j-ABC'') (PyStr ''X'') (PyStr ''s3://b/s.py'')
       (PyList [PyStr ''--a'', PyStr ''1'']) malformed_response_client initial_world)) =
     [] \<and>
   fst (add_step (PyStr ''j-ABC'') (PyStr ''X'') (PyStr ''s3://b/s.py'')
       PyNone answering_client initial_world) =
     Inl TypeError \<and>
   records (snd (add_step (PyStr ''j-ABC'') (PyStr ''X'') (PyStr ''s3://b/s.py'')
       PyNone answering_client initial_world)) =
     [] \<and>
   fst (list_steps (PyStr ''j-ABC'') malformed_response_client initial_world) =
     Inl TypeError \<and>
   records (snd (list_steps (PyStr ''j-ABC'') malformed_response_client initial_world)) =
     []"
proof -
  note refused = only_ClientError_is_logged
     [where emr_client = refused_client and name = "PyStr ''demo''" and
        log_uri = "PyStr ''s3://logs''" and keep_alive = "PyBool False" and
        applications = "PyList [PyStr ''Spark'']" and
        job_flow_role = example_job_flow_role and service_role = example_service_role and
        security_groups = example_security_groups and steps = "PyList example_steps" and
        w = initial_world and cluster_id = "PyStr ''j-ABC''" and step_name = "PyStr ''X''" and
        script_uri = "PyStr ''s3://b/s.py''" and script_args = "PyList [PyStr ''--a'', PyStr ''1'']" and
        step_id = "PyStr ''s-1''"]
  note unreachable = only_ClientError_is_logged
     [where emr_client = unreachable_client and name = "PyStr ''demo''" and
        log_uri = "PyStr ''s3://logs''" and keep_alive = "PyBool False" and
        applications = "PyList [PyStr ''Spark'']" and
        job_flow_role = example_job_flow_role and service_role = example_service_role and
        security_groups = example_security_groups and steps = "PyList example_steps" and
        w = initial_world and cluster_id = "PyStr ''j-ABC''" and step_name = "PyStr ''X''" and
        script_uri = "PyStr ''s3://b/s.py''" and script_args = "PyList [PyStr ''--a'', PyStr ''1'']" and
        step_id = "PyStr ''s-1''"]
  note empty = only_ClientError_is_logged
     [where emr_client = empty_response_client and name = "PyStr ''demo''" and
        log_uri = "PyStr ''s3://logs''" and keep_alive = "PyBool False" and
        applications = "PyList [PyStr ''Spark'']" and
        job_flow_role = example_job_flow_role and service_role = example_service_role and
        security_groups = example_security_groups and steps = "PyList example_steps" and
        w = initial_world and cluster_id = "PyStr ''j-ABC''" and step_name = "PyStr ''X''" and
        script_uri = "PyStr ''s3://b/s.py''" and script_args = "PyList [PyStr ''--a'', PyStr ''1'']" and
        step_id = "PyStr ''s-1''"]
  note workerless = only_ClientError_is_logged
     [where emr_client = answering_client and name = "PyStr ''demo''" and
        log_uri = "PyStr ''s3://logs''" and keep_alive = "PyBool False" and
        applications = "PyList [PyStr ''Spark'']" and
        job_flow_role = example_job_flow_role and service_role = example_service_role and
        security_groups = workerless_security_groups and steps = "PyList example_steps" and
        w = initial_world and cluster_id = "PyStr ''j-ABC''" and step_name = "PyStr ''X''" and
        script_uri = "PyStr ''s3://b/s.py''" and script_args = "PyList [PyStr ''--a'', PyStr ''1'']" and
        step_id = "PyStr ''s-1''"]
  note malformed = only_ClientError_is_logged
     [where emr_client = malformed_response_client and name = "PyStr ''demo''" and
        log_uri = "PyStr ''s3://logs''" and keep_alive = "PyBool False" and
        applications = "PyList [PyStr ''Spark'']" and
        job_flow_role = example_job_flow_role and service_role = example_service_role and
        security_groups = example_security_groups and steps = "PyList example_steps" and
        w = initial_world and cluster_id = "PyStr ''j-ABC''" and step_name = "PyStr ''X''" and
        script_uri = "PyStr ''s3://b/s.py''" and script_args = "PyList [PyStr ''--a'', PyStr ''1'']" and
        step_id = "PyStr ''s-1''"]
  note unpackable = only_ClientError_is_logged
     [where emr_client = answering_client and name = "PyStr ''demo''" and
        log_uri = "PyStr ''s3://logs''" and keep_alive = "PyBool False" and
        applications = "PyList [PyStr ''Spark'']" and
        job_flow_role = example_job_flow_role and service_role = example_service_role and
        security_groups = example_security_groups and steps = "PyList example_steps" and
        w = initial_world and cluster_id = "PyStr ''j-ABC''" and step_name = "PyStr ''X''" and
        script_uri = "PyStr ''s3://b/s.py''" and script_args = "PyNone" and
        step_id = "PyStr ''s-1''"]
  have r1: "fst (list_steps (PyStr ''j-ABC'') refused_client initial_world) =
     Inl access_denied"
    using refused by (simp add: refused_client_simps)
  have r2: "records (snd (list_steps (PyStr ''j-ABC'') refused_client initial_world)) =
     [\<lparr>levelname = ''ERROR'', msg = ''Couldn't get steps for cluster %s.'',
       args = [PyStr ''j-ABC''], exc_info = Some access_denied\<rparr>]"
    using refused r1 by (simp add: initial_world_def is_ClientError_access_denied)
  have u1: "fst (list_steps (PyStr ''j-ABC'') unreachable_client initial_world) =
     Inl (OtherException ''EndpointConnectionError'')"
    using unreachable by (simp add: unreachable_client_simps)
  have u2: "records (snd (list_steps (PyStr ''j-ABC'') unreachable_client initial_world)) =
     []"
    using unreachable u1 by (simp add: initial_world_def is_ClientError_access_denied)
  have e1: "fst (list_steps (PyStr ''j-ABC'') empty_response_client initial_world) =
     Inl (KeyError (PyStr ''Steps''))"
    using empty by (simp add: empty_response_client_simps)
  have e2: "records (snd (list_steps (PyStr ''j-ABC'') empty_response_client initial_world)) =
     []"
    using empty e1 by (simp add: initial_world_def is_ClientError_access_denied)
  have j1: "fst (run_job_flow (PyStr ''demo'') (PyStr ''s3://logs'') (PyBool False)
       (PyList [PyStr ''Spark'']) example_job_flow_role example_service_role
       example_security_groups (PyList example_steps) empty_response_client initial_world) =
     Inl (KeyError (PyStr ''JobFlowId''))"
    using empty by (simp add: empty_response_client_simps example_run_job_flow_kwargs)
  have j2: "records (snd (run_job_flow (PyStr ''demo'') (PyStr ''s3://logs'') (PyBool False)
       (PyList [PyStr ''Spark'']) example_job_flow_role example_service_role
       example_security_groups (PyList example_steps) empty_response_client initial_world)) =
     []"
    using empty j1 by (simp add: initial_world_def is_ClientError_access_denied)
  have k1: "fst (run_job_flow (PyStr ''demo'') (PyStr ''s3://logs'') (PyBool False)
       (PyList [PyStr ''Spark'']) example_job_flow_role example_service_role
       workerless_security_groups (PyList example_steps) answering_client initial_world) =
     Inl (KeyError (PyStr ''worker''))"
    using workerless by (simp add: run_job_flow_kwargs_def workerless_security_groups_def)
  have k2: "records (snd (run_job_flow (PyStr ''demo'') (PyStr ''s3://logs'') (PyBool False)
       (PyList [PyStr ''Spark'']) example_job_flow_role example_service_role
       workerless_security_groups (PyList example_steps) answering_client initial_world)) =
     []"
    using workerless k1 by (simp add: initial_world_def is_ClientError_access_denied)
  have n1: "fst (describe_cluster (PyStr ''j-ABC'') malformed_response_client initial_world) =
     Inl (KeyError (PyStr ''Name''))"
    using malformed by (simp add: malformed_response_client_simps)
  have n2: "records (snd (describe_cluster (PyStr ''j-ABC'') malformed_response_client initial_world)) =
     []"
    using malformed n1 by (simp add: initial_world_def is_ClientError_access_denied)
  have i1: "fst (add_step (PyStr ''j-ABC'') (PyStr ''X'') (PyStr ''s3://b/s.py'')
       (PyList [PyStr ''--a'', PyStr ''1'']) malformed_response_client initial_world) =
     Inl IndexError"
    using malformed by (simp add: malformed_response_client_simps add_step_kwargs_def list_index_def)
  have i2: "records (snd (add_step (PyStr ''j-ABC'') (PyStr ''X'') (PyStr ''s3://b/s.py'')
       (PyList [PyStr ''--a'', PyStr ''1'']) malformed_response_client initial_world)) =
     []"
    using malformed i1 by (simp add: initial_world_def is_ClientError_access_denied)
  have t1: "fst (add_step (PyStr ''j-ABC'') (PyStr ''X'') (PyStr ''s3://b/s.py'')
       PyNone answering_client initial_world) =
     Inl TypeError"
    using unpackable by (simp add: add_step_kwargs_def)
  have t2: "records (snd (add_step (PyStr ''j-ABC'') (PyStr ''X'') (PyStr ''s3://b/s.py'')
       PyNone answering_client initial_world)) =
     []"
    using unpackable t1 by (simp add: initial_world_def is_ClientError_access_denied)
  have l1: "fst (list_steps (PyStr ''j-ABC'') malformed_response_client initial_world) =
     Inl TypeError"
    using malformed by (simp add: malformed_response_client_simps)
  have l2: "records (snd (list_steps (PyStr ''j-ABC'') malformed_response_client initial_world)) =
     []"
    using malformed l1 by (simp add: initial_world_def is_ClientError_access_denied)
  from r1 r2 u1 u2 e1 e2 j1 j2 k1 k2 n1 n2 i1 i2 t1 t2 l1 l2 show ?thesis by simp
qed

section \<open>Successful calls\<close>

text \<open>
  Claim C6, as amended. When the client call succeeds and the response holds the
  documented field, the function returns the value of that field: \<open>run_job_flow\<close> the
  \<open>JobFlowId\<close>, \<open>describe_cluster\<close> the \<open>Cluster\<close> record provided that record has a
  \<open>Name\<close> (which the function reads for its log message), \<open>add_step\<close> the first element
  of \<open>StepIds\<close>, \<open>list_steps\<close> the \<open>Steps\<close> list, \<open>describe_step\<close> the \<open>Step\<close> record;
  \<open>terminate_cluster\<close> returns \<open>None\<close>.
\<close>

theorem operations_return_response_field:
  "(\<forall>kw response cluster_id.
      run_job_flow_kwargs name log_uri keep_alive applications job_flow_role
          service_role security_groups steps = Inr kw \<and>
      client_run_job_flow emr_client kw = Inr response \<and>
      subscript response (PyStr ''JobFlowId'') = Inr cluster_id \<longrightarrow>
      fst (run_job_flow name log_uri keep_alive applications job_flow_role service_role
             security_groups steps emr_client w) = Inr cluster_id) \<and>
   (\<forall>response cluster cluster_name.
      client_describe_cluster emr_client [(''ClusterId'', cluster_id)] = Inr response \<and>
      subscript response (PyStr ''Cluster'') = Inr cluster \<and>
      subscript cluster (PyStr ''Name'') = Inr cluster_name \<longrightarrow>
      fst (describe_cluster cluster_id emr_client w) = Inr cluster) \<and>
   (\<forall>response.
      client_terminate_job_flows emr_client [(''JobFlowIds'', PyList [cluster_id])] =
        Inr response \<longrightarrow>
      fst (terminate_cluster cluster_id emr_client w) = Inr PyNone) \<and>
   (\<forall>kw response step_ids step_id.
      add_step_kwargs cluster_id step_name script_uri script_args = Inr kw \<and>
      client_add_job_flow_steps emr_client kw = Inr response \<and>
      subscript response (PyStr ''StepIds'') = Inr step_ids \<and>
      subscript step_ids (PyInt 0) = Inr step_id \<longrightarrow>
      fst (add_step cluster_id step_name script_uri script_args emr_client w) =
        Inr step_id) \<and>
   (\<forall>response steps.
      client_list_steps emr_client [(''ClusterId'', cluster_id)] = Inr response \<and>
      subscript response (PyStr ''Steps'') = Inr (PyList steps) \<longrightarrow>
      fst (list_steps cluster_id emr_client w) = Inr (PyList steps)) \<and>
   (\<forall>response step.
      client_describe_step emr_client
        [(''ClusterId'', cluster_id), (''StepId'', sid)] = Inr response \<and>
      subscript response (PyStr ''Step'') = Inr step \<longrightarrow>
      fst (describe_step cluster_id sid emr_client w) = Inr step)"
  by (simp add: run_job_flow_returns describe_cluster_returns terminate_cluster_returns
        add_step_returns list_steps_returns describe_step_returns)

theorem operations_return_response_field_witness:
  "fst (run_job_flow (PyStr ''demo'') (PyStr ''s3://logs'') (PyBool False)
       (PyList [PyStr ''Spark'']) example_job_flow_role example_service_role
       example_security_groups (PyList example_steps) answering_client initial_world) =
     Inr (PyStr ''j-ABC'') \<and>
   fst (describe_cluster (PyStr ''j-ABC'') answering_client initial_world) =
     Inr (PyDict [(''Id'', PyStr ''j-ABC''), (''Name'', PyStr ''demo'')]) \<and>
   fst (terminate_cluster (PyStr ''j-ABC'') answering_client initial_world) = Inr PyNone \<and>
   fst (add_step (PyStr ''j-ABC'') (PyStr ''X'') (PyStr ''s3://b/s.py'')
       (PyList [PyStr ''--a'', PyStr ''1'']) answering_client initial_world) =
     Inr (PyStr ''s-1'') \<and>
   fst (list_steps (PyStr ''j-ABC'') answering_client initial_world) = Inr (PyList []) \<and>
   fst (describe_step (PyStr ''j-ABC'') (PyStr ''s-1'') answering_client initial_world) =
     Inr (PyDict [(''Id'', PyStr ''s-1'')])"
  using operations_return_response_field
     [of "PyStr ''demo''" "PyStr ''s3://logs''" "PyBool False" "PyList [PyStr ''Spark'']"
         example_job_flow_role example_service_role example_security_groups
         "PyList example_steps" answering_client initial_world "PyStr ''j-ABC''"
         "PyStr ''X''" "PyStr ''s3://b/s.py''" "PyList [PyStr ''--a'', PyStr ''1'']"
         "PyStr ''s-1''"]
  by (simp add: answering_client_simps example_run_job_flow_kwargs add_step_kwargs_def
        list_index_def)

text \<open>
  The claim as first stated fails: on a successful response whose \<open>Cluster\<close> record has
  no \<open>Name\<close>, \<open>describe_cluster\<close> does not return the record but raises
  \<^verbatim>\<open>KeyError\<close>.
\<close>

theorem describe_cluster_without_name_counterexample:
  "client_describe_cluster nameless_cluster_client [(''ClusterId'', PyStr ''j-ABC'')] =
     Inr (PyDict [(''Cluster'', PyDict [(''Id'', PyStr ''j-ABC'')])]) \<and>
   subscript (PyDict [(''Cluster'', PyDict [(''Id'', PyStr ''j-ABC'')])]) (PyStr ''Cluster'') =
     Inr (PyDict [(''Id'', PyStr ''j-ABC'')]) \<and>
   describe_cluster (PyStr ''j-ABC'') nameless_cluster_client initial_world =
     (Inl (KeyError (PyStr ''Name'')),
      \<lparr>records = [],
       requests = [(''describe_cluster'', [(''ClusterId'', PyStr ''j-ABC'')])]\<rparr>)"
  by (simp add: nameless_cluster_client_def answering_client_def initial_world_def
        describe_cluster_def effect_defs)

section \<open>Statelessness\<close>

text \<open>
  What a function returns, logs and sends is fixed by its arguments and by the client's
  response to its one request: it does not depend on the world the call starts in.
\<close>

lemma run_job_flow_effects:
  "\<exists>r es rs. \<forall>emr_client w.
     (\<forall>kw. run_job_flow_kwargs name log_uri keep_alive applications job_flow_role
             service_role security_groups steps = Inr kw \<longrightarrow>
           client_run_job_flow emr_client kw = res) \<longrightarrow>
     fst (run_job_flow name log_uri keep_alive applications job_flow_role service_role
            security_groups steps emr_client w) = r \<and>
     records (snd (run_job_flow name log_uri keep_alive applications job_flow_role
            service_role security_groups steps emr_client w)) = records w @ es \<and>
     requests (snd (run_job_flow name log_uri keep_alive applications job_flow_role
            service_role security_groups steps emr_client w)) = requests w @ rs"
proof (cases "run_job_flow_kwargs name log_uri keep_alive applications job_flow_role
                service_role security_groups steps")
  case (Inl e)
  then show ?thesis
    by (auto simp: run_job_flow_kwargs_raises intro!: exI)
next
  case kw: (Inr kw)
  show ?thesis
  proof (cases res)
    case (Inl e)
    with kw show ?thesis
      by (cases "is_ClientError e") (auto simp: run_job_flow_client_raises intro!: exI)
  next
    case (Inr response)
    with kw show ?thesis
      by (cases "subscript response (PyStr ''JobFlowId'')")
         (auto simp: run_job_flow_lookup_raises run_job_flow_returns intro!: exI)
  qed
qed

lemma describe_cluster_effects:
  "\<exists>r es rs. \<forall>emr_client w.
     client_describe_cluster emr_client [(''ClusterId'', cluster_id)] = res \<longrightarrow>
     fst (describe_cluster cluster_id emr_client w) = r \<and>
     records (snd (describe_cluster cluster_id emr_client w)) = records w @ es \<and>
     requests (snd (describe_cluster cluster_id emr_client w)) = requests w @ rs"
proof (cases res)
  case (Inl e)
  then show ?thesis
    by (cases "is_ClientError e") (auto simp: describe_cluster_client_raises intro!: exI)
next
  case (Inr response)
  show ?thesis
  proof (cases "subscript response (PyStr ''Cluster'')")
    case (Inl e)
    with Inr show ?thesis
      by (auto simp: describe_cluster_lookup_raises intro!: exI)
  next
    case cluster: (Inr cluster)
    with Inr show ?thesis
      by (cases "subscript cluster (PyStr ''Name'')")
         (auto simp: describe_cluster_lookup_raises describe_cluster_returns intro!: exI)
  qed
qed

lemma terminate_cluster_effects:
  "\<exists>r es rs. \<forall>emr_client w.
     client_terminate_job_flows emr_client [(''JobFlowIds'', PyList [cluster_id])] = res \<longrightarrow>
     fst (terminate_cluster cluster_id emr_client w) = r \<and>
     records (snd (terminate_cluster cluster_id emr_client w)) = records w @ es \<and>
     requests (snd (terminate_cluster cluster_id emr_client w)) = requests w @ rs"
proof (cases res)
  case (Inl e)
  then show ?thesis
    by (cases "is_ClientError e") (auto simp: terminate_cluster_client_raises intro!: exI)
next
  case (Inr response)
  then show ?thesis
    by (auto simp: terminate_cluster_returns intro!: exI)
qed

lemma add_step_effects:
  "\<exists>r es rs. \<forall>emr_client w.
     (\<forall>kw. add_step_kwargs cluster_id name script_uri script_args = Inr kw \<longrightarrow>
           client_add_job_flow_steps emr_client kw = res) \<longrightarrow>
     fst (add_step cluster_id name script_uri script_args emr_client w) = r \<and>
     records (snd (add_step cluster_id name script_uri script_args emr_client w)) =
       records w @ es \<and>
     requests (snd (add_step cluster_id name script_uri script_args emr_client w)) =
       requests w @ rs"
proof (cases "add_step_kwargs cluster_id name script_uri script_args")
  case (Inl e)
  then show ?thesis
    by (auto simp: add_step_kwargs_raises intro!: exI)
next
  case kw: (Inr kw)
  show ?thesis
  proof (cases res)
    case (Inl e)
    with kw show ?thesis
      by (cases "is_ClientError e") (auto simp: add_step_client_raises intro!: exI)
  next
    case (Inr response)
    show ?thesis
    proof (cases "subscript response (PyStr ''StepIds'')")
      case (Inl e)
      with kw Inr show ?thesis
        by (auto simp: add_step_lookup_raises intro!: exI)
    next
      case ids: (Inr step_ids)
      with kw Inr show ?thesis
        by (cases "subscript step_ids (PyInt 0)")
           (auto simp: add_step_lookup_raises add_step_returns intro!: exI)
    qed
  qed
qed

lemma list_steps_effects:
  "\<exists>r es rs. \<forall>emr_client w.
     client_list_steps emr_client [(''ClusterId'', cluster_id)] = res \<longrightarrow>
     fst (list_steps cluster_id emr_client w) = r \<and>
     records (snd (list_steps cluster_id emr_client w)) = records w @ es \<and>
     requests (snd (list_steps cluster_id emr_client w)) = requests w @ rs"
proof (cases res)
  case (Inl e)
  then show ?thesis
    by (cases "is_ClientError e") (auto simp: list_steps_client_raises intro!: exI)
next
  case (Inr response)
  show ?thesis
  proof (cases "subscript response (PyStr ''Steps'')")
    case (Inl e)
    with Inr show ?thesis
      by (auto simp: list_steps_lookup_raises intro!: exI)
  next
    case steps: (Inr steps)
    with Inr show ?thesis
      by (cases "py_len steps")
         (auto simp: list_steps_lookup_raises list_steps_returns intro!: exI)
  qed
qed

lemma describe_step_effects:
  "\<exists>r es rs. \<forall>emr_client w.
     client_describe_step emr_client
       [(''ClusterId'', cluster_id), (''StepId'', step_id)] = res \<longrightarrow>
     fst (describe_step cluster_id step_id emr_client w) = r \<and>
     records (snd (describe_step cluster_id step_id emr_client w)) = records w @ es \<and>
     requests (snd (describe_step cluster_id step_id emr_client w)) = requests w @ rs"
proof (cases res)
  case (Inl e)
  then show ?thesis
    by (cases "is_ClientError e") (auto simp: describe_step_client_raises intro!: exI)
next
  case (Inr response)
  then show ?thesis
    by (cases "subscript response (PyStr ''Step'')")
       (auto simp: describe_step_lookup_raises describe_step_returns intro!: exI)
qed

lemma run_job_flow_deterministic:
  assumes "\<forall>kw. run_job_flow_kwargs name log_uri keep_alive applications job_flow_role
            service_role security_groups steps = Inr kw \<longrightarrow>
          client_run_job_flow c1 kw = client_run_job_flow c2 kw"
  shows "fst (run_job_flow name log_uri keep_alive applications job_flow_role
          service_role security_groups steps c1 w1) =
       fst (run_job_flow name log_uri keep_alive applications job_flow_role
          service_role security_groups steps c2 w2) \<and>
     (\<exists>es rs.
        records (snd (run_job_flow name log_uri keep_alive applications job_flow_role
          service_role security_groups steps c1 w1)) = records w1 @ es \<and>
        records (snd (run_job_flow name log_uri keep_alive applications job_flow_role
          service_role security_groups steps c2 w2)) = records w2 @ es \<and>
        requests (snd (run_job_flow name log_uri keep_alive applications job_flow_role
          service_role security_groups steps c1 w1)) = requests w1 @ rs \<and>
        requests (snd (run_job_flow name log_uri keep_alive applications job_flow_role
          service_role security_groups steps c2 w2)) = requests w2 @ rs)"
proof -
  obtain res where h1: "\<forall>kw. run_job_flow_kwargs name log_uri keep_alive applications job_flow_role
            service_role security_groups steps = Inr kw \<longrightarrow>
          client_run_job_flow c1 kw = res"
    by (cases "run_job_flow_kwargs name log_uri keep_alive applications job_flow_role
            service_role security_groups steps") simp_all
  with assms have h2: "\<forall>kw. run_job_flow_kwargs name log_uri keep_alive applications job_flow_role
            service_role security_groups steps = Inr kw \<longrightarrow>
          client_run_job_flow c2 kw = res"
    by simp
  from run_job_flow_effects [of name log_uri keep_alive applications job_flow_role service_role security_groups steps res] obtain r es rs where
    E: "\<forall>emr_client w.
        (\<forall>kw. run_job_flow_kwargs name log_uri keep_alive applications job_flow_role
            service_role security_groups steps = Inr kw \<longrightarrow>
          client_run_job_flow emr_client kw = res) \<longrightarrow>
        fst (run_job_flow name log_uri keep_alive applications job_flow_role
          service_role security_groups steps emr_client w) = r \<and>
        records (snd (run_job_flow name log_uri keep_alive applications job_flow_role
          service_role security_groups steps emr_client w)) = records w @ es \<and>
        requests (snd (run_job_flow name log_uri keep_alive applications job_flow_role
          service_role security_groups steps emr_client w)) = requests w @ rs"
    by (elim exE)
  from E [THEN spec [where x = c1], THEN spec [where x = w1], THEN mp, OF h1] have e1: "fst (run_job_flow name log_uri keep_alive applications job_flow_role
          service_role security_groups steps c1 w1) = r \<and>
        records (snd (run_job_flow name log_uri keep_alive applications job_flow_role
          service_role security_groups steps c1 w1)) = records w1 @ es \<and>
        requests (snd (run_job_flow name log_uri keep_alive applications job_flow_role
          service_role security_groups steps c1 w1)) = requests w1 @ rs"
    by simp
  from E [THEN spec [where x = c2], THEN spec [where x = w2], THEN mp, OF h2] have e2: "fst (run_job_flow name log_uri keep_alive applications job_flow_role
          service_role security_groups steps c2 w2) = r \<and>
        records (snd (run_job_flow name log_uri keep_alive applications job_flow_role
          service_role security_groups steps c2 w2)) = records w2 @ es \<and>
        requests (snd (run_job_flow name log_uri keep_alive applications job_flow_role
          service_role security_groups steps c2 w2)) = requests w2 @ rs"
    by simp
  from e1 e2 show ?thesis
    by (intro conjI exI [of _ es] exI [of _ rs]) simp_all
qed

lemma describe_cluster_deterministic:
  assumes "client_describe_cluster c1 [(''ClusterId'', cluster_id)] =
       client_describe_cluster c2 [(''ClusterId'', cluster_id)]"
  shows "fst (describe_cluster cluster_id c1 w1) =
       fst (describe_cluster cluster_id c2 w2) \<and>
     (\<exists>es rs.
        records (snd (describe_cluster cluster_id c1 w1)) = records w1 @ es \<and>
        records (snd (describe_cluster cluster_id c2 w2)) = records w2 @ es \<and>
        requests (snd (describe_cluster cluster_id c1 w1)) = requests w1 @ rs \<and>
        requests (snd (describe_cluster cluster_id c2 w2)) = requests w2 @ rs)"
proof -
  define res where "res = client_describe_cluster c1 [(''ClusterId'', cluster_id)]"
  then have h1: "client_describe_cluster c1 [(''ClusterId'', cluster_id)] = res"
    by simp
  with assms have h2: "client_describe_cluster c2 [(''ClusterId'', cluster_id)] = res"
    by simp
  from describe_cluster_effects [of cluster_id res] obtain r es rs where
    E: "\<forall>emr_client w.
        client_describe_cluster emr_client [(''ClusterId'', cluster_id)] = res \<longrightarrow>
        fst (describe_cluster cluster_id emr_client w) = r \<and>
        records (snd (describe_cluster cluster_id emr_client w)) = records w @ es \<and>
        requests (snd (describe_cluster cluster_id emr_client w)) = requests w @ rs"
    by (elim exE)
  from E [rule_format, of c1 w1, OF h1] have e1: "fst (describe_cluster cluster_id c1 w1) = r \<and>
        records (snd (describe_cluster cluster_id c1 w1)) = records w1 @ es \<and>
        requests (snd (describe_cluster cluster_id c1 w1)) = requests w1 @ rs"
    by simp
  from E [rule_format, of c2 w2, OF h2] have e2: "fst (describe_cluster cluster_id c2 w2) = r \<and>
        records (snd (describe_cluster cluster_id c2 w2)) = records w2 @ es \<and>
        requests (snd (describe_cluster cluster_id c2 w2)) = requests w2 @ rs"
    by simp
  from e1 e2 show ?thesis
    by (intro conjI exI [of _ es] exI [of _ rs]) simp_all
qed

lemma terminate_cluster_deterministic:
  assumes "client_terminate_job_flows c1 [(''JobFlowIds'', PyList [cluster_id])] =
       client_terminate_job_flows c2 [(''JobFlowIds'', PyList [cluster_id])]"
  shows "fst (terminate_cluster cluster_id c1 w1) =
       fst (terminate_cluster cluster_id c2 w2) \<and>
     (\<exists>es rs.
        records (snd (terminate_cluster cluster_id c1 w1)) = records w1 @ es \<and>
        records (snd (terminate_cluster cluster_id c2 w2)) = records w2 @ es \<and>
        requests (snd (terminate_cluster cluster_id c1 w1)) = requests w1 @ rs \<and>
        requests (snd (terminate_cluster cluster_id c2 w2)) = requests w2 @ rs)"
proof -
  define res where "res = client_terminate_job_flows c1 [(''JobFlowIds'', PyList [cluster_id])]"
  then have h1: "client_terminate_job_flows c1 [(''JobFlowIds'', PyList [cluster_id])] = res"
    by simp
  with assms have h2: "client_terminate_job_flows c2 [(''JobFlowIds'', PyList [cluster_id])] = res"
    by simp
  from terminate_cluster_effects [of cluster_id res] obtain r es rs where
    E: "\<forall>emr_client w.
        client_terminate_job_flows emr_client [(''JobFlowIds'', PyList [cluster_id])] = res \<longrightarrow>
        fst (terminate_cluster cluster_id emr_client w) = r \<and>
        records (snd (terminate_cluster cluster_id emr_client w)) = records w @ es \<and>
        requests (snd (terminate_cluster cluster_id emr_client w)) = requests w @ rs"
    by (elim exE)
  from E [rule_format, of c1 w1, OF h1] have e1: "fst (terminate_cluster cluster_id c1 w1) = r \<and>
        records (snd (terminate_cluster cluster_id c1 w1)) = records w1 @ es \<and>
        requests (snd (terminate_cluster cluster_id c1 w1)) = requests w1 @ rs"
    by simp
  from E [rule_format, of c2 w2, OF h2] have e2: "fst (terminate_cluster cluster_id c2 w2) = r \<and>
        records (snd (terminate_cluster cluster_id c2 w2)) = records w2 @ es \<and>
        requests (snd (terminate_cluster cluster_id c2 w2)) = requests w2 @ rs"
    by simp
  from e1 e2 show ?thesis
    by (intro conjI exI [of _ es] exI [of _ rs]) simp_all
qed

lemma add_step_deterministic:
  assumes "\<forall>kw. add_step_kwargs cluster_id step_name script_uri script_args = Inr kw \<longrightarrow>
          client_add_job_flow_steps c1 kw = client_add_job_flow_steps c2 kw"
  shows "fst (add_step cluster_id step_name script_uri script_args c1 w1) =
       fst (add_step cluster_id step_name script_uri script_args c2 w2) \<and>
     (\<exists>es rs.
        records (snd (add_step cluster_id step_name script_uri script_args c1 w1)) = records w1 @ es \<and>
        records (snd (add_step cluster_id step_name script_uri script_args c2 w2)) = records w2 @ es \<and>
        requests (snd (add_step cluster_id step_name script_uri script_args c1 w1)) = requests w1 @ rs \<and>
        requests (snd (add_step cluster_id step_name script_uri script_args c2 w2)) = requests w2 @ rs)"
proof -
  obtain res where h1: "\<forall>kw. add_step_kwargs cluster_id step_name script_uri script_args = Inr kw \<longrightarrow>
          client_add_job_flow_steps c1 kw = res"
    by (cases "add_step_kwargs cluster_id step_name script_uri script_args") simp_all
  with assms have h2: "\<forall>kw. add_step_kwargs cluster_id step_name script_uri script_args = Inr kw \<longrightarrow>
          client_add_job_flow_steps c2 kw = res"
    by simp
  from add_step_effects [of cluster_id step_name script_uri script_args res] obtain r es rs where
    E: "\<forall>emr_client w.
        (\<forall>kw. add_step_kwargs cluster_id step_name script_uri script_args = Inr kw \<longrightarrow>
          client_add_job_flow_steps emr_client kw = res) \<longrightarrow>
        fst (add_step cluster_id step_name script_uri script_args emr_client w) = r \<and>
        records (snd (add_step cluster_id step_name script_uri script_args emr_client w)) = records w @ es \<and>
        requests (snd (add_step cluster_id step_name script_uri script_args emr_client w)) = requests w @ rs"
    by (elim exE)
  from E [THEN spec [where x = c1], THEN spec [where x = w1], THEN mp, OF h1] have e1: "fst (add_step cluster_id step_name script_uri script_args c1 w1) = r \<and>
        records (snd (add_step cluster_id step_name script_uri script_args c1 w1)) = records w1 @ es \<and>
        requests (snd (add_step cluster_id step_name script_uri script_args c1 w1)) = requests w1 @ rs"
    by simp
  from E [THEN spec [where x = c2], THEN spec [where x = w2], THEN mp, OF h2] have e2: "fst (add_step cluster_id step_name script_uri script_args c2 w2) = r \<and>
        records (snd (add_step cluster_id step_name script_uri script_args c2 w2)) = records w2 @ es \<and>
        requests (snd (add_step cluster_id step_name script_uri script_args c2 w2)) = requests w2 @ rs"
    by simp
  from e1 e2 show ?thesis
    by (intro conjI exI [of _ es] exI [of _ rs]) simp_all
qed

lemma list_steps_deterministic:
  assumes "client_list_steps c1 [(''ClusterId'', cluster_id)] =
       client_list_steps c2 [(''ClusterId'', cluster_id)]"
  shows "fst (list_steps cluster_id c1 w1) =
       fst (list_steps cluster_id c2 w2) \<and>
     (\<exists>es rs.
        records (snd (list_steps cluster_id c1 w1)) = records w1 @ es \<and>
        records (snd (list_steps cluster_id c2 w2)) = records w2 @ es \<and>
        requests (snd (list_steps cluster_id c1 w1)) = requests w1 @ rs \<and>
        requests (snd (list_steps cluster_id c2 w2)) = requests w2 @ rs)"
proof -
  define res where "res = client_list_steps c1 [(''ClusterId'', cluster_id)]"
  then have h1: "client_list_steps c1 [(''ClusterId'', cluster_id)] = res"
    by simp
  with assms have h2: "client_list_steps c2 [(''ClusterId'', cluster_id)] = res"
    by simp
  from list_steps_effects [of cluster_id res] obtain r es rs where
    E: "\<forall>emr_client w.
        client_list_steps emr_client [(''ClusterId'', cluster_id)] = res \<longrightarrow>
        fst (list_steps cluster_id emr_client w) = r \<and>
        records (snd (list_steps cluster_id emr_client w)) = records w @ es \<and>
        requests (snd (list_steps cluster_id emr_client w)) = requests w @ rs"
    by (elim exE)
  from E [rule_format, of c1 w1, OF h1] have e1: "fst (list_steps cluster_id c1 w1) = r \<and>
        records (snd (list_steps cluster_id c1 w1)) = records w1 @ es \<and>
        requests (snd (list_steps cluster_id c1 w1)) = requests w1 @ rs"
    by simp
  from E [rule_format, of c2 w2, OF h2] have e2: "fst (list_steps cluster_id c2 w2) = r \<and>
        records (snd (list_steps cluster_id c2 w2)) = records w2 @ es \<and>
        requests (snd (list_steps cluster_id c2 w2)) = requests w2 @ rs"
    by simp
  from e1 e2 show ?thesis
    by (intro conjI exI [of _ es] exI [of _ rs]) simp_all
qed

lemma describe_step_deterministic:
  assumes "client_describe_step c1
         [(''ClusterId'', cluster_id), (''StepId'', step_id)] =
       client_describe_step c2
         [(''ClusterId'', cluster_id), (''StepId'', step_id)]"
  shows "fst (describe_step cluster_id step_id c1 w1) =
       fst (describe_step cluster_id step_id c2 w2) \<and>
     (\<exists>es rs.
        records (snd (describe_step cluster_id step_id c1 w1)) = records w1 @ es \<and>
        records (snd (describe_step cluster_id step_id c2 w2)) = records w2 @ es \<and>
        requests (snd (describe_step cluster_id step_id c1 w1)) = requests w1 @ rs \<and>
        requests (snd (describe_step cluster_id step_id c2 w2)) = requests w2 @ rs)"
proof -
  define res where "res = client_describe_step c1
         [(''ClusterId'', cluster_id), (''StepId'', step_id)]"
  then have h1: "client_describe_step c1
         [(''ClusterId'', cluster_id), (''StepId'', step_id)] = res"
    by simp
  with assms have h2: "client_describe_step c2
         [(''ClusterId'', cluster_id), (''StepId'', step_id)] = res"
    by simp
  from describe_step_effects [of cluster_id step_id res] obtain r es rs where
    E: "\<forall>emr_client w.
        client_describe_step emr_client
         [(''ClusterId'', cluster_id), (''StepId'', step_id)] = res \<longrightarrow>
        fst (describe_step cluster_id step_id emr_client w) = r \<and>
        records (snd (describe_step cluster_id step_id emr_client w)) = records w @ es \<and>
        requests (snd (describe_step cluster_id step_id emr_client w)) = requests w @ rs"
    by (elim exE)
  from E [rule_format, of c1 w1, OF h1] have e1: "fst (describe_step cluster_id step_id c1 w1) = r \<and>
        records (snd (describe_step cluster_id step_id c1 w1)) = records w1 @ es \<and>
        requests (snd (describe_step cluster_id step_id c1 w1)) = requests w1 @ rs"
    by simp
  from E [rule_format, of c2 w2, OF h2] have e2: "fst (describe_step cluster_id step_id c2 w2) = r \<and>
        records (snd (describe_step cluster_id step_id c2 w2)) = records w2 @ es \<and>
        requests (snd (describe_step cluster_id step_id c2 w2)) = requests w2 @ rs"
    by simp
  from e1 e2 show ?thesis
    by (intro conjI exI [of _ es] exI [of _ rs]) simp_all
qed

text \<open>
  Claim C8. Each of the six functions is stateless and deterministic: two invocations
  with equal arguments, started in any two worlds with clients that give the same
  response to the request, return equal values (or raise equal exceptions), send equal
  requests and emit equal log records; each invocation only appends its request and its
  records to the world it started in, and reads nothing from it.
\<close>

theorem operations_stateless_deterministic:
  "((\<forall>kw. run_job_flow_kwargs name log_uri keep_alive applications job_flow_role
            service_role security_groups steps = Inr kw \<longrightarrow>
          client_run_job_flow c1 kw = client_run_job_flow c2 kw) \<longrightarrow>
     fst (run_job_flow name log_uri keep_alive applications job_flow_role
          service_role security_groups steps c1 w1) =
       fst (run_job_flow name log_uri keep_alive applications job_flow_role
          service_role security_groups steps c2 w2) \<and>
     (\<exists>es rs.
        records (snd (run_job_flow name log_uri keep_alive applications job_flow_role
          service_role security_groups steps c1 w1)) = records w1 @ es \<and>
        records (snd (run_job_flow name log_uri keep_alive applications job_flow_role
          service_role security_groups steps c2 w2)) = records w2 @ es \<and>
        requests (snd (run_job_flow name log_uri keep_alive applications job_flow_role
          service_role security_groups steps c1 w1)) = requests w1 @ rs \<and>
        requests (snd (run_job_flow name log_uri keep_alive applications job_flow_role
          service_role security_groups steps c2 w2)) = requests w2 @ rs)) \<and>
   ((client_describe_cluster c1 [(''ClusterId'', cluster_id)] =
       client_describe_cluster c2 [(''ClusterId'', cluster_id)]) \<longrightarrow>
     fst (describe_cluster cluster_id c1 w1) =
       fst (describe_cluster cluster_id c2 w2) \<and>
     (\<exists>es rs.
        records (snd (describe_cluster cluster_id c1 w1)) = records w1 @ es \<and>
        records (snd (describe_cluster cluster_id c2 w2)) = records w2 @ es \<and>
        requests (snd (describe_cluster cluster_id c1 w1)) = requests w1 @ rs \<and>
        requests (snd (describe_cluster cluster_id c2 w2)) = requests w2 @ rs)) \<and>
   ((client_terminate_job_flows c1 [(''JobFlowIds'', PyList [cluster_id])] =
       client_terminate_job_flows c2 [(''JobFlowIds'', PyList [cluster_id])]) \<longrightarrow>
     fst (terminate_cluster cluster_id c1 w1) =
       fst (terminate_cluster cluster_id c2 w2) \<and>
     (\<exists>es rs.
        records (snd (terminate_cluster cluster_id c1 w1)) = records w1 @ es \<and>
        records (snd (terminate_cluster cluster_id c2 w2)) = records w2 @ es \<and>
        requests (snd (terminate_cluster cluster_id c1 w1)) = requests w1 @ rs \<and>
        requests (snd (terminate_cluster cluster_id c2 w2)) = requests w2 @ rs)) \<and>
   ((\<forall>kw. add_step_kwargs cluster_id step_name script_uri script_args = Inr kw \<longrightarrow>
          client_add_job_flow_steps c1 kw = client_add_job_flow_steps c2 kw) \<longrightarrow>
     fst (add_step cluster_id step_name script_uri script_args c1 w1) =
       fst (add_step cluster_id step_name script_uri script_args c2 w2) \<and>
     (\<exists>es rs.
        records (snd (add_step cluster_id step_name script_uri script_args c1 w1)) = records w1 @ es \<and>
        records (snd (add_step cluster_id step_name script_uri script_args c2 w2)) = records w2 @ es \<and>
        requests (snd (add_step cluster_id step_name script_uri script_args c1 w1)) = requests w1 @ rs \<and>
        requests (snd (add_step cluster_id step_name script_uri script_args c2 w2)) = requests w2 @ rs)) \<and>
   ((client_list_steps c1 [(''ClusterId'', cluster_id)] =
       client_list_steps c2 [(''ClusterId'', cluster_id)]) \<longrightarrow>
     fst (list_steps cluster_id c1 w1) =
       fst (list_steps cluster_id c2 w2) \<and>
     (\<exists>es rs.
        records (snd (list_steps cluster_id c1 w1)) = records w1 @ es \<and>
        records (snd (list_steps cluster_id c2 w2)) = records w2 @ es \<and>
        requests (snd (list_steps cluster_id c1 w1)) = requests w1 @ rs \<and>
        requests (snd (list_steps cluster_id c2 w2)) = requests w2 @ rs)) \<and>
   ((client_describe_step c1
         [(''ClusterId'', cluster_id), (''StepId'', step_id)] =
       client_describe_step c2
         [(''ClusterId'', cluster_id), (''StepId'', step_id)]) \<longrightarrow>
     fst (describe_step cluster_id step_id c1 w1) =
       fst (describe_step cluster_id step_id c2 w2) \<and>
     (\<exists>es rs.
        records (snd (describe_step cluster_id step_id c1 w1)) = records w1 @ es \<and>
        records (snd (describe_step cluster_id step_id c2 w2)) = records w2 @ es \<and>
        requests (snd (describe_step cluster_id step_id c1 w1)) = requests w1 @ rs \<and>
        requests (snd (describe_step cluster_id step_id c2 w2)) = requests w2 @ rs))"
  by (intro conjI impI run_job_flow_deterministic describe_cluster_deterministic
        terminate_cluster_deterministic add_step_deterministic list_steps_deterministic
        describe_step_deterministic)

theorem operations_stateless_deterministic_witness:
  "fst (list_steps (PyStr ''j-ABC'') answering_client initial_world) =
     fst (list_steps (PyStr ''j-ABC'') answering_client later_world) \<and>
   (\<exists>es rs.
      records (snd (list_steps (PyStr ''j-ABC'') answering_client initial_world)) =
        records initial_world @ es \<and>
      records (snd (list_steps (PyStr ''j-ABC'') answering_client later_world)) =
        records later_world @ es \<and>
      requests (snd (list_steps (PyStr ''j-ABC'') answering_client initial_world)) =
        requests initial_world @ rs \<and>
      requests (snd (list_steps (PyStr ''j-ABC'') answering_client later_world)) =
        requests later_world @ rs) \<and>
   fst (run_job_flow (PyStr ''demo'') (PyStr ''s3://logs'') (PyBool False)
       (PyList [PyStr ''Spark'']) example_job_flow_role example_service_role
       example_security_groups (PyList example_steps) answering_client initial_world) =
     fst (run_job_flow (PyStr ''demo'') (PyStr ''s3://logs'') (PyBool False)
       (PyList [PyStr ''Spark'']) example_job_flow_role example_service_role
       example_security_groups (PyList example_steps) nameless_cluster_client later_world)"
proof -
  have agree: "client_run_job_flow answering_client kw =
      client_run_job_flow nameless_cluster_client kw" for kw
    by (simp add: nameless_cluster_client_def)
  note same = operations_stateless_deterministic
     [of "PyStr ''demo''" "PyStr ''s3://logs''" "PyBool False" "PyList [PyStr ''Spark'']"
         example_job_flow_role example_service_role example_security_groups
         "PyList example_steps" answering_client answering_client initial_world later_world
         "PyStr ''j-ABC''" "PyStr ''X''" "PyStr ''s3://b/s.py''" "PyList []" "PyStr ''s-1''"]
  note other = operations_stateless_deterministic
     [of "PyStr ''demo''" "PyStr ''s3://logs''" "PyBool False" "PyList [PyStr ''Spark'']"
         example_job_flow_role example_service_role example_security_groups
         "PyList example_steps" answering_client nameless_cluster_client initial_world
         later_world "PyStr ''j-ABC''" "PyStr ''X''" "PyStr ''s3://b/s.py''" "PyList []"
         "PyStr ''s-1''"]
  from same have a: "fst (list_steps (PyStr ''j-ABC'') answering_client initial_world) =
     fst (list_steps (PyStr ''j-ABC'') answering_client later_world) \<and>
   (\<exists>es rs.
      records (snd (list_steps (PyStr ''j-ABC'') answering_client initial_world)) =
        records initial_world @ es \<and>
      records (snd (list_steps (PyStr ''j-ABC'') answering_client later_world)) =
        records later_world @ es \<and>
      requests (snd (list_steps (PyStr ''j-ABC'') answering_client initial_world)) =
        requests initial_world @ rs \<and>
      requests (snd (list_steps (PyStr ''j-ABC'') answering_client later_world)) =
        requests later_world @ rs)"
    by simp
  from other agree have b: "fst (run_job_flow (PyStr ''demo'') (PyStr ''s3://logs'') (PyBool False)
       (PyList [PyStr ''Spark'']) example_job_flow_role example_service_role
       example_security_groups (PyList example_steps) answering_client initial_world) =
     fst (run_job_flow (PyStr ''demo'') (PyStr ''s3://logs'') (PyBool False)
       (PyList [PyStr ''Spark'']) example_job_flow_role example_service_role
       example_security_groups (PyList example_steps) nameless_cluster_client later_world)"
    by simp
  from a b show ?thesis by simp
qed

section \<open>The input shape of run_job_flow\<close>

lemma comprehension_Inr_all:
  "comprehension f xs = Inr ys \<Longrightarrow> x \<in> set xs \<Longrightarrow> \<exists>y. f x = Inr y"
  by (induction xs arbitrary: ys) (auto split: sum.splits)

lemma run_job_flow_kwargs_input_shape:
  assumes "run_job_flow_kwargs name log_uri keep_alive applications job_flow_role
             service_role security_groups steps = Inr kw"
  shows "\<exists>step_list. py_iter steps = Inr step_list \<and>
           input_shape job_flow_role service_role security_groups step_list"
proof -
  from assms obtain manager manager_id worker worker_id step_list step_entries
      job_flow_role_name service_role_name where
    m: "subscript security_groups (PyStr ''manager'') = Inr manager"
       "getattr manager ''id'' = Inr manager_id" and
    k: "subscript security_groups (PyStr ''worker'') = Inr worker"
       "getattr worker ''id'' = Inr worker_id" and
    s: "py_iter steps = Inr step_list"
       "comprehension step_entry step_list = Inr step_entries" and
    r: "getattr job_flow_role ''name'' = Inr job_flow_role_name"
       "getattr service_role ''name'' = Inr service_role_name"
    unfolding run_job_flow_kwargs_eq_Inr by blast
  have "\<not> isl (subscript step (PyStr ''name'')) \<and>
        \<not> isl (subscript step (PyStr ''script_uri'')) \<and>
        \<not> isl (subscript step (PyStr ''script_args''))"
    if "step \<in> set step_list" for step
  proof -
    from comprehension_Inr_all [OF s(2) that] obtain entry where
      "step_entry step = Inr entry" ..
    then show ?thesis
      unfolding step_entry_eq_Inr by auto
  qed
  then have "list_all (\<lambda>step.
         \<not> isl (subscript step (PyStr ''name'')) \<and>
         \<not> isl (subscript step (PyStr ''script_uri'')) \<and>
         \<not> isl (subscript step (PyStr ''script_args''))) step_list"
    by (simp add: list_all_iff)
  with m k r have "input_shape job_flow_role service_role security_groups step_list"
    by (simp add: input_shape_def)
  with s(1) show ?thesis by blast
qed

lemma run_job_flow_kwargs_carries:
  assumes "run_job_flow_kwargs name log_uri keep_alive applications job_flow_role
             service_role security_groups steps = Inr kw"
  shows "\<exists>manager worker manager_id worker_id job_flow_role_name service_role_name
            instances.
           subscript security_groups (PyStr ''manager'') = Inr manager \<and>
           getattr manager ''id'' = Inr manager_id \<and>
           subscript security_groups (PyStr ''worker'') = Inr worker \<and>
           getattr worker ''id'' = Inr worker_id \<and>
           getattr job_flow_role ''name'' = Inr job_flow_role_name \<and>
           getattr service_role ''name'' = Inr service_role_name \<and>
           map_of kw ''Instances'' = Some (PyDict instances) \<and>
           map_of instances ''EmrManagedMasterSecurityGroup'' = Some manager_id \<and>
           map_of instances ''EmrManagedSlaveSecurityGroup'' = Some worker_id \<and>
           map_of kw ''JobFlowRole'' = Some job_flow_role_name \<and>
           map_of kw ''ServiceRole'' = Some service_role_name"
  using assms unfolding run_job_flow_kwargs_eq_Inr by auto

lemma run_job_flow_kwargs_needs_input_shape:
  assumes "py_iter steps = Inr step_list"
    and "\<not> input_shape job_flow_role service_role security_groups step_list"
  shows "\<exists>e. run_job_flow_kwargs name log_uri keep_alive applications job_flow_role
               service_role security_groups steps = Inl e"
proof (cases "run_job_flow_kwargs name log_uri keep_alive applications job_flow_role
                service_role security_groups steps")
  case (Inl e)
  then show ?thesis by blast
next
  case (Inr kw)
  from run_job_flow_kwargs_input_shape [OF Inr] assms show ?thesis
    by simp
qed

lemma not_isl_iff: "\<not> isl r \<longleftrightarrow> (\<exists>y. r = Inr y)"
  by (cases r) simp_all

lemma comprehension_succeeds:
  "(\<And>x. x \<in> set xs \<Longrightarrow> \<exists>y. f x = Inr y) \<Longrightarrow> \<exists>ys. comprehension f xs = Inr ys"
proof (induction xs)
  case Nil
  show ?case by simp
next
  case (Cons x xs)
  from Cons.prems obtain y where y: "f x = Inr y"
    by fastforce
  from Cons obtain ys where "comprehension f xs = Inr ys"
    by fastforce
  with y show ?case by simp
qed

lemma step_entry_succeeds:
  assumes "\<not> isl (subscript step (PyStr ''name''))"
    and "\<not> isl (subscript step (PyStr ''script_uri''))"
    and "\<not> isl (bind_exn (subscript step (PyStr ''script_args'')) py_iter)"
  shows "\<exists>entry. step_entry step = Inr entry"
  using assms unfolding not_isl_iff bind_exn_eq_Inr step_entry_eq_Inr by blast

lemma run_job_flow_kwargs_succeeds:
  assumes "py_iter steps = Inr step_list"
    and "py_iter applications = Inr apps"
    and "input_shape job_flow_role service_role security_groups step_list"
    and "list_all (\<lambda>step.
           \<not> isl (bind_exn (subscript step (PyStr ''script_args'')) py_iter)) step_list"
  shows "\<exists>kw. run_job_flow_kwargs name log_uri keep_alive applications job_flow_role
               service_role security_groups steps = Inr kw"
proof -
  from assms(3) obtain manager manager_id worker worker_id job_flow_role_name
      service_role_name where
    g: "subscript security_groups (PyStr ''manager'') = Inr manager"
       "getattr manager ''id'' = Inr manager_id"
       "subscript security_groups (PyStr ''worker'') = Inr worker"
       "getattr worker ''id'' = Inr worker_id"
       "getattr job_flow_role ''name'' = Inr job_flow_role_name"
       "getattr service_role ''name'' = Inr service_role_name"
    unfolding input_shape_def not_isl_iff bind_exn_eq_Inr by blast
  have "\<exists>entry. step_entry step = Inr entry" if "step \<in> set step_list" for step
  proof (rule step_entry_succeeds)
    from assms(3) that show "\<not> isl (subscript step (PyStr ''name''))"
      by (simp add: input_shape_def list_all_iff)
    from assms(3) that show "\<not> isl (subscript step (PyStr ''script_uri''))"
      by (simp add: input_shape_def list_all_iff)
    from assms(4) that
    show "\<not> isl (bind_exn (subscript step (PyStr ''script_args'')) py_iter)"
      by (simp add: list_all_iff)
  qed
  then obtain step_entries where "comprehension step_entry step_list = Inr step_entries"
    using comprehension_succeeds [of step_list step_entry] by blast
  with g assms(1,2) show ?thesis
    unfolding run_job_flow_kwargs_eq_Inr by blast
qed

text \<open>
  Claim C9. \<open>run_job_flow\<close> builds its request only when its input has the shape
  \<open>input_shape\<close>: \<open>security_groups\<close> a mapping with keys \<open>manager\<close> and \<open>worker\<close>
  whose values have an \<open>id\<close> attribute, \<open>job_flow_role\<close> and \<open>service_role\<close> with a
  \<open>name\<close> attribute, every step a mapping with keys \<open>name\<close>, \<open>script_uri\<close> and
  \<open>script_args\<close>. The request then carries the values of the \<open>id\<close> and \<open>name\<close>
  attributes, not the objects, and it is the request the function sends. On an input of
  that shape whose \<open>steps\<close>, \<open>applications\<close> and \<open>script_args\<close> can be iterated the
  request is built. When a key or an attribute is missing the request is not built; the
  exception is not a \<^verbatim>\<open>ClientError\<close>, so the function raises it with nothing logged
  and nothing sent to the client.
\<close>

theorem run_job_flow_input_shape:
  "(\<forall>kw. run_job_flow_kwargs name log_uri keep_alive applications job_flow_role
            service_role security_groups steps = Inr kw \<longrightarrow>
      (\<exists>step_list. py_iter steps = Inr step_list \<and>
         input_shape job_flow_role service_role security_groups step_list) \<and>
      (\<exists>manager worker manager_id worker_id job_flow_role_name service_role_name
          instances.
         subscript security_groups (PyStr ''manager'') = Inr manager \<and>
         getattr manager ''id'' = Inr manager_id \<and>
         subscript security_groups (PyStr ''worker'') = Inr worker \<and>
         getattr worker ''id'' = Inr worker_id \<and>
         getattr job_flow_role ''name'' = Inr job_flow_role_name \<and>
         getattr service_role ''name'' = Inr service_role_name \<and>
         map_of kw ''Instances'' = Some (PyDict instances) \<and>
         map_of instances ''EmrManagedMasterSecurityGroup'' = Some manager_id \<and>
         map_of instances ''EmrManagedSlaveSecurityGroup'' = Some worker_id \<and>
         map_of kw ''JobFlowRole'' = Some job_flow_role_name \<and>
         map_of kw ''ServiceRole'' = Some service_role_name) \<and>
      requests (snd (run_job_flow name log_uri keep_alive applications job_flow_role
          service_role security_groups steps emr_client w)) =
        requests w @ [(''run_job_flow'', kw)]) \<and>
   (\<forall>step_list apps.
      py_iter steps = Inr step_list \<and>
      py_iter applications = Inr apps \<and>
      input_shape job_flow_role service_role security_groups step_list \<and>
      list_all (\<lambda>step.
          \<not> isl (bind_exn (subscript step (PyStr ''script_args'')) py_iter)) step_list \<longrightarrow>
      (\<exists>kw. run_job_flow_kwargs name log_uri keep_alive applications job_flow_role
               service_role security_groups steps = Inr kw)) \<and>
   (\<forall>step_list.
      py_iter steps = Inr step_list \<and>
      \<not> input_shape job_flow_role service_role security_groups step_list \<longrightarrow>
      (\<exists>e. run_job_flow_kwargs name log_uri keep_alive applications job_flow_role
              service_role security_groups steps = Inl e)) \<and>
   (\<forall>e. run_job_flow_kwargs name log_uri keep_alive applications job_flow_role
           service_role security_groups steps = Inl e \<longrightarrow>
      \<not> is_ClientError e \<and>
      run_job_flow name log_uri keep_alive applications job_flow_role service_role
        security_groups steps emr_client w = (Inl e, w))"
proof (intro conjI allI impI)
  fix step_list
  assume "py_iter steps = Inr step_list \<and>
      \<not> input_shape job_flow_role service_role security_groups step_list"
  then show "\<exists>e. run_job_flow_kwargs name log_uri keep_alive applications job_flow_role
              service_role security_groups steps = Inl e"
    using run_job_flow_kwargs_needs_input_shape by blast
next
  fix step_list apps
  assume "py_iter steps = Inr step_list \<and>
      py_iter applications = Inr apps \<and>
      input_shape job_flow_role service_role security_groups step_list \<and>
      list_all (\<lambda>step.
          \<not> isl (bind_exn (subscript step (PyStr ''script_args'')) py_iter)) step_list"
  then show "\<exists>kw. run_job_flow_kwargs name log_uri keep_alive applications job_flow_role
               service_role security_groups steps = Inr kw"
    using run_job_flow_kwargs_succeeds by blast
qed (erule run_job_flow_kwargs_input_shape run_job_flow_kwargs_carries
       run_job_flow_requests run_job_flow_kwargs_not_ClientError
       run_job_flow_kwargs_raises)+

theorem run_job_flow_input_shape_witness:
  "(\<exists>kw. run_job_flow_kwargs (PyStr ''demo'') (PyStr ''s3://logs'') (PyBool False)
       (PyList [PyStr ''Spark'']) example_job_flow_role example_service_role
       example_security_groups (PyList example_steps) = Inr kw \<and>
      requests (snd (run_job_flow (PyStr ''demo'') (PyStr ''s3://logs'') (PyBool False)
       (PyList [PyStr ''Spark'']) example_job_flow_role example_service_role
       example_security_groups (PyList example_steps) answering_client initial_world)) =
        [(''run_job_flow'', kw)]) \<and>
   requests (snd (run_job_flow (PyStr ''demo'') (PyStr ''s3://logs'') (PyBool False)
       (PyList [PyStr ''Spark'']) example_job_flow_role example_service_role
       example_security_groups (PyList example_steps) answering_client initial_world)) =
     [(''run_job_flow'', example_run_job_flow_kwargs)] \<and>
   input_shape example_job_flow_role example_service_role example_security_groups
     example_steps \<and>
   (\<exists>instances.
      map_of example_run_job_flow_kwargs ''Instances'' = Some (PyDict instances) \<and>
      map_of instances ''EmrManagedMasterSecurityGroup'' = Some (PyStr ''sg-1'') \<and>
      map_of instances ''EmrManagedSlaveSecurityGroup'' = Some (PyStr ''sg-2'')) \<and>
   map_of example_run_job_flow_kwargs ''JobFlowRole'' = Some (PyStr ''job-flow-role'') \<and>
   map_of example_run_job_flow_kwargs ''ServiceRole'' = Some (PyStr ''service-role'') \<and>
   \<not> input_shape example_job_flow_role example_service_role workerless_security_groups
       example_steps \<and>
   run_job_flow (PyStr ''demo'') (PyStr ''s3://logs'') (PyBool False)
       (PyList [PyStr ''Spark'']) example_job_flow_role example_service_role
       workerless_security_groups (PyList example_steps) answering_client initial_world =
     (Inl (KeyError (PyStr ''worker'')), initial_world)"
proof -
  note good = run_job_flow_input_shape
     [of "PyStr ''demo''" "PyStr ''s3://logs''" "PyBool False" "PyList [PyStr ''Spark'']"
         example_job_flow_role example_service_role example_security_groups
         "PyList example_steps" answering_client initial_world]
  note bad = run_job_flow_input_shape
     [of "PyStr ''demo''" "PyStr ''s3://logs''" "PyBool False" "PyList [PyStr ''Spark'']"
         example_job_flow_role example_service_role workerless_security_groups
         "PyList example_steps" answering_client initial_world]
  have shape: "input_shape example_job_flow_role example_service_role
      example_security_groups example_steps"
    by (simp add: input_shape_def example_job_flow_role_def example_service_role_def
          example_security_groups_def example_steps_def)
  have iterable: "list_all (\<lambda>step.
      \<not> isl (bind_exn (subscript step (PyStr ''script_args'')) py_iter)) example_steps"
    by (simp add: example_steps_def)
  from good shape iterable obtain kw where
    built: "run_job_flow_kwargs (PyStr ''demo'') (PyStr ''s3://logs'') (PyBool False)
       (PyList [PyStr ''Spark'']) example_job_flow_role example_service_role
       example_security_groups (PyList example_steps) = Inr kw"
    by auto
  with good have sent: "requests (snd (run_job_flow (PyStr ''demo'') (PyStr ''s3://logs'')
       (PyBool False) (PyList [PyStr ''Spark'']) example_job_flow_role example_service_role
       example_security_groups (PyList example_steps) answering_client initial_world)) =
     [(''run_job_flow'', kw)]"
    by (simp add: initial_world_def)
  from built have kw: "kw = example_run_job_flow_kwargs"
    by (simp add: example_run_job_flow_kwargs)
  from good have g: "input_shape example_job_flow_role example_service_role
      example_security_groups example_steps \<and>
    (\<exists>manager worker manager_id worker_id job_flow_role_name service_role_name instances.
         subscript example_security_groups (PyStr ''manager'') = Inr manager \<and>
         getattr manager ''id'' = Inr manager_id \<and>
         subscript example_security_groups (PyStr ''worker'') = Inr worker \<and>
         getattr worker ''id'' = Inr worker_id \<and>
         getattr example_job_flow_role ''name'' = Inr job_flow_role_name \<and>
         getattr example_service_role ''name'' = Inr service_role_name \<and>
         map_of example_run_job_flow_kwargs ''Instances'' = Some (PyDict instances) \<and>
         map_of instances ''EmrManagedMasterSecurityGroup'' = Some manager_id \<and>
         map_of instances ''EmrManagedSlaveSecurityGroup'' = Some worker_id \<and>
         map_of example_run_job_flow_kwargs ''JobFlowRole'' = Some job_flow_role_name \<and>
         map_of example_run_job_flow_kwargs ''ServiceRole'' = Some service_role_name)"
    by (simp add: example_run_job_flow_kwargs)
  then have g2: "(\<exists>instances.
      map_of example_run_job_flow_kwargs ''Instances'' = Some (PyDict instances) \<and>
      map_of instances ''EmrManagedMasterSecurityGroup'' = Some (PyStr ''sg-1'') \<and>
      map_of instances ''EmrManagedSlaveSecurityGroup'' = Some (PyStr ''sg-2'')) \<and>
   map_of example_run_job_flow_kwargs ''JobFlowRole'' = Some (PyStr ''job-flow-role'') \<and>
   map_of example_run_job_flow_kwargs ''ServiceRole'' = Some (PyStr ''service-role'')"
    by (auto simp: example_security_groups_def example_job_flow_role_def
          example_service_role_def)
  have n: "\<not> input_shape example_job_flow_role example_service_role
      workerless_security_groups example_steps"
    by (simp add: input_shape_def workerless_security_groups_def)
  have k: "run_job_flow_kwargs (PyStr ''demo'') (PyStr ''s3://logs'') (PyBool False)
       (PyList [PyStr ''Spark'']) example_job_flow_role example_service_role
       workerless_security_groups (PyList example_steps) = Inl (KeyError (PyStr ''worker''))"
    by (simp add: run_job_flow_kwargs_def workerless_security_groups_def)
  from bad k have b: "run_job_flow (PyStr ''demo'') (PyStr ''s3://logs'') (PyBool False)
       (PyList [PyStr ''Spark'']) example_job_flow_role example_service_role
       workerless_security_groups (PyList example_steps) answering_client initial_world =
     (Inl (KeyError (PyStr ''worker'')), initial_world)"
    by simp
  from built sent kw g g2 n b show ?thesis by simp
qed

end
